theory Spec2Isabelle
  imports Main "HOL-Library.Char_ord" "HOL-Library.List_Lexorder" "HOL-Library.Multiset"
begin

section \<open>JavaScript values as the store sees them\<close>

text \<open>
  The values that reach \<open>skillStore.js\<close> come out of sql.js rows or out of plain object
  lookups: \<open>undefined\<close> (a key that is absent), \<open>null\<close> (SQL NULL), numbers, strings,
  \<open>Uint8Array\<close>s (SQL BLOBs) and, through the prototype of an object literal, built-in
  functions. Strings are kept as their UTF-8 bytes. \<open>JNum n\<close> is the integer \<open>n\<close>: as a
  value stored in a table it is a 64-bit integer, as a JavaScript value it is a double, and
  the functions below that take it as a JavaScript number round it to the nearest double
  first. Numbers with a fractional part are outside this model. \<open>JFun s\<close> is an object
  whose conversion to a string is \<open>s\<close>.
\<close>

datatype jsval = JUndefined | JNull | JNum int | JStr string | JBlob string | JFun string

text \<open>ToBoolean.\<close>

fun truthy :: "jsval \<Rightarrow> bool" where
  "truthy JUndefined = False"
| "truthy JNull = False"
| "truthy (JNum n) = (n \<noteq> 0)"
| "truthy (JStr s) = (s \<noteq> [])"
| "truthy (JBlob b) = True"
| "truthy (JFun f) = True"

text \<open>The operator \<open>a || b\<close>: the first operand when it is truthy, else the second.\<close>

definition js_or :: "jsval \<Rightarrow> jsval \<Rightarrow> jsval" where
  "js_or a b = (if truthy a then a else b)"

text \<open>\<open>a !== undefined && a !== null\<close>, and the operator \<open>a ?? b\<close>.\<close>

definition nullish :: "jsval \<Rightarrow> bool" where
  "nullish v = (v = JUndefined \<or> v = JNull)"

definition js_coalesce :: "jsval \<Rightarrow> jsval \<Rightarrow> jsval" where
  "js_coalesce a b = (if nullish a then b else a)"

subsection \<open>Doubles\<close>

text \<open>
  The double nearest to a natural number, ties going to the even mantissa: the number
  itself below \<open>2^53\<close>, a multiple of a power of two above. From \<open>2^1024 - 2^970\<close> on the
  nearest double is \<open>Infinity\<close>, here \<open>None\<close>.
\<close>

function bit_length :: "nat \<Rightarrow> nat" where
  "bit_length n = (if n = 0 then 0 else Suc (bit_length (n div 2)))"
  by pat_completeness auto
termination
  by (relation "measure (\<lambda>n. n)") auto

declare bit_length.simps [simp del]

definition nearest_double :: "nat \<Rightarrow> nat" where
  "nearest_double n =
     (if n < 2 ^ 53 then n
      else (let e = bit_length n - 53;
                q = n div 2 ^ e;
                r = n mod 2 ^ e;
                h = 2 ^ (e - 1);
                m = (if r > h \<or> (r = h \<and> odd q) then q + 1 else q)
            in m * 2 ^ e))"

definition double_of_nat :: "nat \<Rightarrow> nat option" where
  "double_of_nat n = (if nearest_double n \<ge> 2 ^ 1024 then None else Some (nearest_double n))"

definition double_of_int :: "int \<Rightarrow> int option" where
  "double_of_int i =
     (if i < 0 then map_option (\<lambda>n. - int n) (double_of_nat (nat (- i)))
      else map_option int (double_of_nat (nat i)))"

subsection \<open>Decimal strings and \<open>String(v)\<close>\<close>

definition digit_char :: "nat \<Rightarrow> char" where
  "digit_char d = char_of (48 + d)"

function dec_nat :: "nat \<Rightarrow> string" where
  "dec_nat n = (if n < 10 then [digit_char n] else dec_nat (n div 10) @ [digit_char (n mod 10)])"
  by pat_completeness auto
termination
  by (relation "measure (\<lambda>n. n)") auto

declare dec_nat.simps [simp del]

definition dec_int :: "int \<Rightarrow> string" where
  "dec_int i = (if i < 0 then CHR ''-'' # dec_nat (nat (- i)) else dec_nat (nat i))"

text \<open>
  \<open>Number::toString\<close> on a double \<open>x\<close> that is a whole number. It prints the number
  with the fewest significant digits that still reads back as \<open>x\<close>:
  \<open>shortest_digits x k\<close> tries \<open>k\<close>, \<open>k + 1\<close>, ... digits, each time the two numbers
  of that many digits around \<open>x\<close>, and takes the one nearer to \<open>x\<close> (the one with the
  even last digit when both are as near) among those that read back as \<open>x\<close>.
\<close>

function shortest_digits :: "nat \<Rightarrow> nat \<Rightarrow> nat" where
  "shortest_digits x k =
     (let d = length (dec_nat x);
          p = 10 ^ (d - k);
          lo = (x div p) * p;
          hi = lo + p;
          lo_reads_back = (double_of_nat lo = Some x);
          hi_reads_back = (double_of_nat hi = Some x)
      in if k \<ge> d then x
         else if lo_reads_back \<and> hi_reads_back
              then (if x - lo < hi - x then lo
                    else if hi - x < x - lo then hi
                    else if even (x div p) then lo else hi)
         else if lo_reads_back then lo
         else if hi_reads_back then hi
         else shortest_digits x (Suc k))"
  by pat_completeness auto
termination
  by (relation "measure (\<lambda>(x, k). length (dec_nat x) - k)") auto

declare shortest_digits.simps [simp del]

text \<open>
  Up to 21 digits the digits are written out, the rest being zeros; beyond, the
  significant digits are followed by \<open>e+\<close> and the exponent.
\<close>

definition strip_zeros :: "string \<Rightarrow> string" where
  "strip_zeros ds = rev (dropWhile (\<lambda>c. c = CHR ''0'') (rev ds))"

definition render_digits :: "nat \<Rightarrow> string" where
  "render_digits v =
     (let ds = dec_nat v; n = length ds
      in if n \<le> 21 then ds
         else (case strip_zeros ds of
                 [] \<Rightarrow> ds
               | [c] \<Rightarrow> c # ''e+'' @ dec_nat (n - 1)
               | c # cs \<Rightarrow> c # CHR ''.'' # cs @ ''e+'' @ dec_nat (n - 1)))"

text \<open>
  Below \<open>2^53\<close> every whole number is a double and reads back only as itself, so its
  digits are its decimal digits.
\<close>

definition number_string :: "nat \<Rightarrow> string" where
  "number_string n =
     (if n < 2 ^ 53 then dec_nat n
      else (case double_of_nat n of
              None \<Rightarrow> ''Infinity''
            | Some x \<Rightarrow> render_digits (shortest_digits x 1)))"

text \<open>\<open>Array.prototype.join\<close> with a comma, as \<open>String\<close> applies it to a \<open>Uint8Array\<close>.\<close>

fun join_commas :: "string list \<Rightarrow> string" where
  "join_commas [] = []"
| "join_commas [x] = x"
| "join_commas (x # y # ys) = x @ CHR '','' # join_commas (y # ys)"

fun js_String :: "jsval \<Rightarrow> string" where
  "js_String JUndefined = ''undefined''"
| "js_String JNull = ''null''"
| "js_String (JNum n) =
     (if n < 0 then CHR ''-'' # number_string (nat (- n)) else number_string (nat n))"
| "js_String (JStr s) = s"
| "js_String (JBlob b) = join_commas (map (\<lambda>c. dec_nat (of_char c)) b)"
| "js_String (JFun f) = f"

subsection \<open>\<open>encodeURIComponent\<close>\<close>

text \<open>
  Every byte of the UTF-8 form is kept when it is one of
  \<open>A-Z a-z 0-9 - _ . ! ~ * ' ( )\<close> and written as \<open>%XX\<close> (upper-case hexadecimal)
  otherwise.
\<close>

definition uri_unreserved :: "char \<Rightarrow> bool" where
  "uri_unreserved c =
     (let n = (of_char c :: nat) in
        (65 \<le> n \<and> n \<le> 90) \<or> (97 \<le> n \<and> n \<le> 122) \<or> (48 \<le> n \<and> n \<le> 57)
        \<or> c \<in> set ''-_.!~*'()'')"

definition hex_char :: "nat \<Rightarrow> char" where
  "hex_char d = (if d < 10 then char_of (48 + d) else char_of (55 + d))"

definition encode_byte :: "char \<Rightarrow> string" where
  "encode_byte c =
     (if uri_unreserved c then [c]
      else [CHR ''%'', hex_char ((of_char c :: nat) div 16), hex_char ((of_char c :: nat) mod 16)])"

definition encodeURIComponent :: "string \<Rightarrow> string" where
  "encodeURIComponent s = concat (map encode_byte s)"

section \<open>Rows and the canonical record\<close>

text \<open>
  A row is the plain object that \<open>statement.getAsObject()\<close> builds: column name to value.
  \<open>getProp row k\<close> is the property read \<open>row.k\<close>. None of the keys \<open>normalizeSkill\<close> reads
  is a property of \<open>Object.prototype\<close>, so a missing key reads as \<open>undefined\<close>.
\<close>

type_synonym row = "string \<rightharpoonup> jsval"

definition getProp :: "row \<Rightarrow> string \<Rightarrow> jsval" where
  "getProp r k = (case r k of None \<Rightarrow> JUndefined | Some v \<Rightarrow> v)"

record skill =
  skill_id :: jsval
  skill_identifier :: string
  skill_name :: jsval
  fromRepo :: jsval
  skillPath :: jsval
  repostars :: jsval
  tagline :: jsval
  tags :: "string list"
  tags_en :: "string list"
  categories :: "string list"
  category :: jsval
  description :: jsval
  description_zh :: jsval
  description_en :: jsval
  use_case :: jsval
  use_case_en :: jsval
  download_url :: jsval
  skill_md_content :: jsval
  skill_md_content_translation :: jsval
  file_tree :: jsval
  how_to_install :: jsval
  created_at :: jsval
  updated_at :: jsval

text \<open>\<open>xs[0]\<close> on an array of strings: \<open>undefined\<close> when the array is empty.\<close>

definition first_elem :: "string list \<Rightarrow> jsval" where
  "first_elem xs = (case xs of [] \<Rightarrow> JUndefined | x # _ \<Rightarrow> JStr x)"

text \<open>
  \<open>normalizeSkill(row, index)\<close>. The two helpers it imports from \<open>../utils\<close>,
  \<open>parseArrayValue\<close> and \<open>pickCategory\<close>, are parameters: the first turns a raw value
  into a sequence of strings, the second into one category name.
\<close>

definition normalizeSkill ::
  "(jsval \<Rightarrow> string list) \<Rightarrow> (jsval \<Rightarrow> string) \<Rightarrow> row \<Rightarrow> nat \<Rightarrow> skill" where
  "normalizeSkill parseArrayValue pickCategory r index =
     (let tags = parseArrayValue (getProp r ''tags'');
          tagsEn = parseArrayValue (js_or (getProp r ''tags_en'') (getProp r ''tagsEn''));
          categories = parseArrayValue (getProp r ''categories'');
          skillName = js_or (getProp r ''skill_name'')
                        (js_or (getProp r ''skillName'') (js_or (getProp r ''name'') (JStr '''')));
          descriptionZh = js_or (getProp r ''description_zh'')
                        (js_or (getProp r ''descriptionZh'')
                           (js_or (getProp r ''description'') (JStr '''')));
          descriptionEn = js_or (getProp r ''description_en'')
                        (js_or (getProp r ''descriptionEn'') (JStr ''''));
          useCaseEn = js_or (getProp r ''use_case_en'') (js_or (getProp r ''useCaseEn'') (JStr ''''));
          identifier =
            (if getProp r ''id'' \<noteq> JUndefined \<and> getProp r ''id'' \<noteq> JNull
             then js_String (getProp r ''id'')
             else if truthy skillName then encodeURIComponent (js_String skillName)
             else js_String (JNum (int index + 1)))
      in \<lparr> skill_id = js_coalesce (getProp r ''id'') (JStr identifier),
           skill_identifier = identifier,
           skill_name = skillName,
           fromRepo = js_or (getProp r ''fromRepo'') (js_or (getProp r ''from_repo'') (JStr '''')),
           skillPath = js_or (getProp r ''skillPath'') (js_or (getProp r ''skill_path'') (JStr '''')),
           repostars = js_or (getProp r ''repostars'')
                         (js_or (getProp r ''repoStars'') (js_or (getProp r ''stars'') (JNum 0))),
           tagline = js_or (getProp r ''tagline'') (JStr ''''),
           tags = tags,
           tags_en = tagsEn,
           categories = categories,
           category = js_or (first_elem categories) (JStr (pickCategory (getProp r ''categories''))),
           description = descriptionZh,
           description_zh = descriptionZh,
           description_en = descriptionEn,
           use_case = js_or (getProp r ''use_case'') (js_or (getProp r ''useCase'') (JStr '''')),
           use_case_en = useCaseEn,
           download_url =
             js_or (getProp r ''download_url'') (js_or (getProp r ''downloadUrl'') (JStr '''')),
           skill_md_content =
             js_or (getProp r ''skill_md_content'') (js_or (getProp r ''skillMdContent'') (JStr '''')),
           skill_md_content_translation =
             js_or (getProp r ''skill_md_content_translation'')
               (js_or (getProp r ''skillMdContentTranslation'') (JStr '''')),
           file_tree = js_or (getProp r ''file_tree'') (js_or (getProp r ''fileTree'') (JStr '''')),
           how_to_install =
             js_or (getProp r ''how_to_install'') (js_or (getProp r ''howToInstall'') (JStr '''')),
           created_at = js_or (getProp r ''created_at'') (js_or (getProp r ''createdAt'') (JStr '''')),
           updated_at = js_or (getProp r ''updated_at'') (js_or (getProp r ''updatedAt'') (JStr ''''))
         \<rparr>)"

text \<open>
  The resolution rule in the specification's words: try the keys in the order given, take
  the first one that holds a usable (truthy) value, else the default.
\<close>

fun resolveKeys :: "row \<Rightarrow> string list \<Rightarrow> jsval \<Rightarrow> jsval" where
  "resolveKeys r [] dflt = dflt"
| "resolveKeys r (k # ks) dflt = (if truthy (getProp r k) then getProp r k else resolveKeys r ks dflt)"

section \<open>The dataset and table discovery\<close>

text \<open>
  What sql.js holds after \<open>new SQL.Database(bytes)\<close>: the user-visible content of the
  file, a list of tables in the order of \<open>sqlite_master\<close>. A table has its declared
  columns and its rows, in the order of their row ids.
\<close>

record table =
  tcolumns :: "string list"
  trows :: "row list"

type_synonym database = "(string \<times> table) list"

subsection \<open>The \<open>LIKE\<close> operator of SQLite\<close>

text \<open>
  \<open>%\<close> matches any run of characters, \<open>_\<close> one character, anything else itself, upper
  and lower case ASCII letters being equal. A character is a UTF-8 lead byte with its
  continuation bytes.
\<close>

definition ascii_lower :: "char \<Rightarrow> char" where
  "ascii_lower c =
     (let n = (of_char c :: nat) in if 65 \<le> n \<and> n \<le> 90 then char_of (n + 32) else c)"

definition is_continuation :: "char \<Rightarrow> bool" where
  "is_continuation c = (let n = (of_char c :: nat) in 128 \<le> n \<and> n < 192)"

fun next_char :: "string \<Rightarrow> string" where
  "next_char [] = []"
| "next_char (c # cs) = (if (of_char c :: nat) \<ge> 192 then dropWhile is_continuation cs else cs)"

function sql_like :: "string \<Rightarrow> string \<Rightarrow> bool" where
  "sql_like [] t = (t = [])"
| "sql_like (p # ps) [] = (p = CHR ''%'' \<and> sql_like ps [])"
| "sql_like (p # ps) (c # cs) =
     (if p = CHR ''%'' then sql_like ps (c # cs) \<or> sql_like (p # ps) (next_char (c # cs))
      else if p = CHR ''_'' then sql_like ps (next_char (c # cs))
      else ascii_lower p = ascii_lower c \<and> sql_like ps cs)"
  by pat_completeness auto
termination
  by (relation "measure (\<lambda>(p, t). length p + length t)")
     (auto simp: less_Suc_eq_le intro: le_trans [OF length_dropWhile_le])

subsection \<open>\<open>selectTableName\<close>\<close>

text \<open>
  The query of \<open>selectTableName\<close>,
  \<open>SELECT name FROM sqlite_master WHERE type='table' AND name NOT LIKE 'sqlite_%' ORDER BY name\<close>:
  the names that pass the filter, and the same in byte order as \<open>ORDER BY\<close> returns them.
\<close>

definition non_system_names :: "database \<Rightarrow> string list" where
  "non_system_names db = filter (\<lambda>n. \<not> sql_like ''sqlite_%'' n) (map fst db)"

definition table_names_query :: "database \<Rightarrow> string list" where
  "table_names_query db = sort (non_system_names db)"

text \<open>\<open>names[0] || null\<close>: no name when the list is empty or its first name is \<open>""\<close>.\<close>

definition selectTableName :: "database \<Rightarrow> string option" where
  "selectTableName db =
     (let names = table_names_query db in
        if ''skills'' \<in> set names then Some ''skills''
        else if ''skill'' \<in> set names then Some ''skill''
        else (case names of [] \<Rightarrow> None | n # _ \<Rightarrow> if n = [] then None else Some n))"

section \<open>The cache and its loaders\<close>

datatype error =
    NetworkError
  | FetchFailed nat
  | NoTableFound
  | OpenFailed
  | FsError
  | URIError
  | SqlError

type_synonym buffer = string

record cacheMeta =
  source :: string
  etag :: string
  lastModified :: string
  lastChecked :: int
  mtimeMs :: int

text \<open>
  The module variables \<open>cachedDb\<close>, \<open>cachedTable\<close>, \<open>cachedMeta\<close>. (\<open>cachedSql\<close> is the
  sql.js module itself and is part of \<open>sqlOpen\<close> below; \<open>loadingPromise\<close> is in the model of
  concurrent callers further down.)
\<close>

record store =
  cachedDb :: "database option"
  cachedTable :: "string option"
  cachedMeta :: cacheMeta

definition initialStore :: store where
  "initialStore =
     \<lparr> cachedDb = None, cachedTable = None,
       cachedMeta = \<lparr> source = [], etag = [], lastModified = [], lastChecked = 0, mtimeMs = 0 \<rparr> \<rparr>"

subsection \<open>What the queries hand over and hand back\<close>

text \<open>
  The \<open>ORDER BY\<close> clauses of \<open>buildOrderClause\<close>, the values that sql.js binds to a
  parameter (\<open>sqlite3_bind_int\<close> for a number \<open>n\<close> with \<open>n === (n | 0)\<close>,
  \<open>sqlite3_bind_double\<close> for any other number, \<open>None\<close> being \<open>Infinity\<close>, and
  \<open>sqlite3_bind_text\<close> for a string), and the results of the three operations.
\<close>

datatype order_clause = RepostarsDesc | UpdatedAsc | UpdatedDesc

datatype bind_value = BindInt int | BindDouble "int option" | BindText string

record queryResult =
  items :: "skill list"
  total_count :: nat
  page :: int
  pageSize :: int

type_synonym counts = "string \<rightharpoonup> jsval"

record summary =
  summary_total :: nat
  summary_counts :: counts

subsection \<open>The outside world\<close>

datatype http_method = HEAD | GET

record request =
  url :: string
  verb :: http_method
  ifNoneMatch :: "string option"
  ifModifiedSince :: "string option"

text \<open>
  A response: its status, the two validator headers (\<open>None\<close> when the header is absent) and
  what \<open>arrayBuffer()\<close> gives.
\<close>

record response =
  status :: nat
  etagHeader :: "string option"
  lastModifiedHeader :: "string option"
  body :: "error + buffer"

text \<open>
  What one call observes: the clock, the file system, the network, sql.js and the SQLite
  engine behind it. \<open>sqlOpen\<close> stands for \<open>getSql()\<close> followed by
  \<open>new SQL.Database(bytes)\<close> and the first query on it, which is where bytes that are no
  database are rejected. \<open>mtimeMs\<close> is only compared for equality.

  The file format fixes neither the order in which a statement visits rows nor, without
  the declared type of a column, the outcome of a comparison; the rows of a table carry
  no indexes and no declared types here, so the engine answers for both:
  \<^item> \<open>rowOrder w oc rows\<close> is the order in which a statement with the \<open>ORDER BY\<close> clause
    \<open>oc\<close> (\<open>None\<close>: no such clause) returns the rows \<open>rows\<close> that pass its \<open>WHERE\<close>
    clause: SQL leaves the order of ties and the order without \<open>ORDER BY\<close> to the
    engine, and the collation of the column decides the rest;
  \<^item> \<open>sqlEquals w col v b\<close> is the verdict on \<open>col = ?\<close> for a row that stores \<open>v\<close> in
    \<open>col\<close>, with \<open>b\<close> bound: it depends on the affinity and collation of the column;
  \<^item> \<open>otherList\<close>, \<open>otherLookup\<close>, \<open>otherSummary\<close> are the outcomes of the three
    operations when the table name has a double quote in it: the name is spliced into
    \<open>FROM "${table}"\<close> unescaped, the quote ends the identifier early, and the statement
    is another one than the code means.
\<close>

record world =
  now :: int
  statFile :: "string \<Rightarrow> error + int"
  readFile :: "string \<Rightarrow> error + buffer"
  fetch :: "request \<Rightarrow> error + response"
  sqlOpen :: "buffer \<Rightarrow> error + database"
  rowOrder :: "order_clause option \<Rightarrow> row list \<Rightarrow> row list"
  sqlEquals :: "string \<Rightarrow> jsval \<Rightarrow> bind_value \<Rightarrow> bool"
  otherList :: "error + queryResult"
  otherLookup :: "error + skill option"
  otherSummary :: "error + summary"

definition ok :: "response \<Rightarrow> bool" where
  "ok r = (200 \<le> status r \<and> status r \<le> 299)"

text \<open>\<open>headers.get(name) || ""\<close>.\<close>

definition header_or_empty :: "string option \<Rightarrow> string" where
  "header_or_empty h = (case h of None \<Rightarrow> [] | Some v \<Rightarrow> v)"

subsection \<open>\<open>getDbSource\<close> and the configuration\<close>

text \<open>
  The environment: an unset variable is the empty string; \<open>SKILL_DB_REVALIDATE_MS\<close> is
  held as \<open>Number(...)\<close> of it, \<open>0\<close> when unset or not a number.
\<close>

record config =
  SKILL_DB_URL :: string
  NEXT_PUBLIC_SKILL_DB_URL :: string
  SKILL_DB_REVALIDATE_MS :: int
  DEFAULT_DB_PATH :: string

definition REVALIDATE_MS :: "config \<Rightarrow> int" where
  "REVALIDATE_MS cfg =
     (if SKILL_DB_REVALIDATE_MS cfg \<noteq> 0 then SKILL_DB_REVALIDATE_MS cfg else 4 * 60 * 60 * 1000)"

datatype dbSource = Remote string | Local string

fun key :: "dbSource \<Rightarrow> string" where
  "key (Remote u) = u"
| "key (Local p) = p"

text \<open>The test \<open>/^https?:\/\//i\<close>.\<close>

definition is_http_url :: "string \<Rightarrow> bool" where
  "is_http_url u =
     (map ascii_lower (take 7 u) = ''http://'' \<or> map ascii_lower (take 8 u) = ''https://'')"

definition getDbSource :: "config \<Rightarrow> dbSource" where
  "getDbSource cfg =
     (let remoteUrl = (if SKILL_DB_URL cfg \<noteq> [] then SKILL_DB_URL cfg
                       else NEXT_PUBLIC_SKILL_DB_URL cfg) in
        if remoteUrl \<noteq> [] \<and> is_http_url remoteUrl then Remote remoteUrl
        else Local (DEFAULT_DB_PATH cfg))"

subsection \<open>\<open>setCachedDb\<close> and \<open>buildDbFromBuffer\<close>\<close>

text \<open>
  Every caller of \<open>setCachedDb\<close> passes all five fields of the metadata, so the merge
  \<open>{...cachedMeta, ...meta}\<close> is the new metadata. Closing the old handle frees memory and
  changes nothing that is observed here.
\<close>

definition setCachedDb :: "store \<Rightarrow> database \<Rightarrow> string \<Rightarrow> cacheMeta \<Rightarrow> store" where
  "setCachedDb st db tbl meta = \<lparr> cachedDb = Some db, cachedTable = Some tbl, cachedMeta = meta \<rparr>"

definition buildDbFromBuffer :: "world \<Rightarrow> store \<Rightarrow> buffer \<Rightarrow> cacheMeta \<Rightarrow> (error + database) \<times> store" where
  "buildDbFromBuffer w st buf meta =
     (case sqlOpen w buf of
        Inl e \<Rightarrow> (Inl e, st)
      | Inr db \<Rightarrow>
          (case selectTableName db of
             None \<Rightarrow> (Inl NoTableFound, st)
           | Some tbl \<Rightarrow> (Inr db, setCachedDb st db tbl meta)))"

subsection \<open>\<open>loadLocalDb\<close>\<close>

definition loadLocalDb :: "world \<Rightarrow> store \<Rightarrow> string \<Rightarrow> (error + database) \<times> store" where
  "loadLocalDb w st dbPath =
     (case statFile w dbPath of
        Inl e \<Rightarrow> (Inl e, st)
      | Inr mtime \<Rightarrow>
          (case cachedDb st of
             Some db \<Rightarrow>
               if source (cachedMeta st) = dbPath \<and> mtimeMs (cachedMeta st) = mtime
               then (Inr db, st\<lparr>cachedMeta := (cachedMeta st)\<lparr>lastChecked := now w\<rparr>\<rparr>)
               else (case readFile w dbPath of
                       Inl e \<Rightarrow> (Inl e, st)
                     | Inr buf \<Rightarrow>
                         buildDbFromBuffer w st buf
                           \<lparr> source = dbPath, etag = [], lastModified = [],
                             lastChecked = now w, mtimeMs = mtime \<rparr>)
           | None \<Rightarrow>
               (case readFile w dbPath of
                  Inl e \<Rightarrow> (Inl e, st)
                | Inr buf \<Rightarrow>
                    buildDbFromBuffer w st buf
                      \<lparr> source = dbPath, etag = [], lastModified = [],
                        lastChecked = now w, mtimeMs = mtime \<rparr>)))"

subsection \<open>\<open>revalidateRemoteDb\<close>\<close>

datatype revalidation =
    NotModified string string
  | Downloaded buffer string string

text \<open>The request headers: a validator is sent when the cached one is non-empty.\<close>

definition conditional :: "cacheMeta \<Rightarrow> string \<Rightarrow> http_method \<Rightarrow> request" where
  "conditional meta dbUrl m =
     \<lparr> url = dbUrl, verb = m,
       ifNoneMatch = (if etag meta \<noteq> [] then Some (etag meta) else None),
       ifModifiedSince = (if lastModified meta \<noteq> [] then Some (lastModified meta) else None) \<rparr>"

text \<open>The second half of \<open>revalidateRemoteDb\<close>, from the \<open>GET\<close> on.\<close>

definition conditionalGet :: "world \<Rightarrow> cacheMeta \<Rightarrow> string \<Rightarrow> error + revalidation" where
  "conditionalGet w meta dbUrl =
     (case fetch w (conditional meta dbUrl GET) of
        Inl e \<Rightarrow> Inl e
      | Inr r \<Rightarrow>
          if status r = 304 then Inr (NotModified (etag meta) (lastModified meta))
          else if \<not> ok r then Inl (FetchFailed (status r))
          else (case body r of
                  Inl e \<Rightarrow> Inl e
                | Inr buf \<Rightarrow>
                    Inr (Downloaded buf (header_or_empty (etagHeader r))
                           (header_or_empty (lastModifiedHeader r)))))"

definition revalidateRemoteDb :: "world \<Rightarrow> cacheMeta \<Rightarrow> string \<Rightarrow> error + revalidation" where
  "revalidateRemoteDb w meta dbUrl =
     (let headResponse =
            (case fetch w (conditional meta dbUrl HEAD) of Inl e \<Rightarrow> None | Inr r \<Rightarrow> Some r)
      in case headResponse of
           None \<Rightarrow> conditionalGet w meta dbUrl
         | Some h \<Rightarrow>
             if status h = 304 then Inr (NotModified (etag meta) (lastModified meta))
             else if ok h \<and>
                     ((header_or_empty (etagHeader h) \<noteq> []
                         \<and> header_or_empty (etagHeader h) = etag meta)
                      \<or> (header_or_empty (lastModifiedHeader h) \<noteq> []
                         \<and> header_or_empty (lastModifiedHeader h) = lastModified meta))
             then Inr (NotModified (header_or_empty (etagHeader h))
                         (header_or_empty (lastModifiedHeader h)))
             else conditionalGet w meta dbUrl)"

subsection \<open>\<open>loadRemoteDb\<close>\<close>

text \<open>The plain \<open>fetch(dbUrl)\<close> of a first load.\<close>

definition freshFetch :: "world \<Rightarrow> store \<Rightarrow> string \<Rightarrow> (error + database) \<times> store" where
  "freshFetch w st dbUrl =
     (case fetch w \<lparr> url = dbUrl, verb = GET, ifNoneMatch = None, ifModifiedSince = None \<rparr> of
        Inl e \<Rightarrow> (Inl e, st)
      | Inr r \<Rightarrow>
          if \<not> ok r then (Inl (FetchFailed (status r)), st)
          else (case body r of
                  Inl e \<Rightarrow> (Inl e, st)
                | Inr buf \<Rightarrow>
                    buildDbFromBuffer w st buf
                      \<lparr> source = dbUrl, etag = header_or_empty (etagHeader r),
                        lastModified = header_or_empty (lastModifiedHeader r),
                        lastChecked = now w, mtimeMs = 0 \<rparr>))"

text \<open>
  In the \<open>try\<close> block the revalidation is awaited, so what it throws reaches the \<open>catch\<close>,
  which records the time and returns the cached handle (\<open>cachedDb\<close> is set on this path).
  \<open>buildDbFromBuffer\<close> is returned without \<open>await\<close>: the \<open>try\<close> block is left before its
  promise settles, and a rejection goes to the caller. A buffer is an object, so
  \<open>if (result.buffer)\<close> holds whenever the revalidation downloaded one.
\<close>

definition loadRemoteDb :: "world \<Rightarrow> store \<Rightarrow> string \<Rightarrow> (error + database) \<times> store" where
  "loadRemoteDb w st dbUrl =
     (case cachedDb st of
        None \<Rightarrow> freshFetch w st dbUrl
      | Some db \<Rightarrow>
          if source (cachedMeta st) = dbUrl then
            (case revalidateRemoteDb w (cachedMeta st) dbUrl of
               Inl e \<Rightarrow> (Inr db, st\<lparr>cachedMeta := (cachedMeta st)\<lparr>lastChecked := now w\<rparr>\<rparr>)
             | Inr (NotModified e l) \<Rightarrow>
                 (Inr db, st\<lparr>cachedMeta := (cachedMeta st)\<lparr>etag := e, lastModified := l,
                                                          lastChecked := now w\<rparr>\<rparr>)
             | Inr (Downloaded buf e l) \<Rightarrow>
                 buildDbFromBuffer w st buf
                   \<lparr> source = dbUrl, etag = e, lastModified = l, lastChecked = now w, mtimeMs = 0 \<rparr>)
          else freshFetch w st dbUrl)"

subsection \<open>\<open>getDb\<close>, one caller at a time\<close>

definition needsCheck :: "config \<Rightarrow> store \<Rightarrow> int \<Rightarrow> bool" where
  "needsCheck cfg st t =
     (cachedDb st = None
      \<or> source (cachedMeta st) \<noteq> key (getDbSource cfg)
      \<or> t - lastChecked (cachedMeta st) > REVALIDATE_MS cfg)"

definition load :: "world \<Rightarrow> store \<Rightarrow> dbSource \<Rightarrow> (error + database) \<times> store" where
  "load w st src = (case src of Remote u \<Rightarrow> loadRemoteDb w st u | Local p \<Rightarrow> loadLocalDb w st p)"

text \<open>\<open>getDb\<close> when no load is in flight: the cached handle, or the outcome of one load.\<close>

definition getDb :: "config \<Rightarrow> world \<Rightarrow> store \<Rightarrow> (error + database) \<times> store" where
  "getDb cfg w st =
     (case cachedDb st of
        Some db \<Rightarrow> if \<not> needsCheck cfg st (now w) then (Inr db, st) else load w st (getDbSource cfg)
      | None \<Rightarrow> load w st (getDbSource cfg))"

section \<open>Queries\<close>

subsection \<open>What the SQL statements compute\<close>

text \<open>
  The statements of the store are fixed texts with bound parameters. Their meaning is
  written here as functions on the rows of a table. A row of a table is keyed by the
  declared names of the columns, and a number stored in it is an \<open>INTEGER\<close>.

  SQLite resolves a column name without regard to the case of ASCII letters:
  \<open>declared t name\<close> is the declared name that \<open>name\<close> refers to, \<open>cell t r name\<close> the
  value that the row stores there, NULL where it stores nothing.
\<close>

definition same_name :: "string \<Rightarrow> string \<Rightarrow> bool" where
  "same_name a b = (map ascii_lower a = map ascii_lower b)"

definition declared :: "table \<Rightarrow> string \<Rightarrow> string option" where
  "declared t name = find (same_name name) (tcolumns t)"

definition stored :: "row \<Rightarrow> string \<Rightarrow> jsval" where
  "stored r c = (case r c of None \<Rightarrow> JNull | Some v \<Rightarrow> v)"

definition cell :: "table \<Rightarrow> row \<Rightarrow> string \<Rightarrow> jsval" where
  "cell t r name = (case declared t name of None \<Rightarrow> JNull | Some c \<Rightarrow> stored r c)"

text \<open>\<open>db.prepare\<close> fails on a column the table does not declare.\<close>

definition has_columns :: "table \<Rightarrow> string list \<Rightarrow> bool" where
  "has_columns t cols = list_all (\<lambda>c. declared t c \<noteq> None) cols"

text \<open>The text a value has under \<open>LIKE\<close>; NULL has none and matches nothing.\<close>

fun sql_text :: "jsval \<Rightarrow> string option" where
  "sql_text (JNum n) = Some (dec_int n)"
| "sql_text (JStr s) = Some s"
| "sql_text (JBlob b) = Some b"
| "sql_text v = None"

definition like_holds :: "string \<Rightarrow> jsval \<Rightarrow> bool" where
  "like_holds pat v = (case sql_text v of None \<Rightarrow> False | Some t \<Rightarrow> sql_like pat t)"

text \<open>
  \<open>LIMIT ? OFFSET ?\<close> with the two numbers bound. A number beyond 32 bits is bound as a
  double, and SQLite takes a double here only if it is a whole number strictly between
  \<open>-2^63\<close> and \<open>2^63\<close>: otherwise the statement fails with \<open>datatype mismatch\<close>, as it
  does for \<open>Infinity\<close> (\<open>None\<close>). A negative offset is no offset, a negative limit is
  no limit.
\<close>

definition in_int64 :: "int \<Rightarrow> bool" where
  "in_int64 n = (- (2 ^ 63) < n \<and> n < 2 ^ 63)"

definition sql_limit :: "int \<Rightarrow> int option \<Rightarrow> 'a list \<Rightarrow> error + 'a list" where
  "sql_limit l off rows =
     (case off of
        None \<Rightarrow> Inl SqlError
      | Some off' \<Rightarrow>
          if \<not> in_int64 l \<or> \<not> in_int64 off' then Inl SqlError
          else (let rest = drop (nat off') rows
                in Inr (if l < 0 then rest else take (nat l) rest)))"

text \<open>
  \<open>getAsObject()\<close> on a result row: one property for each selected column, under the
  declared name of the column. sql.js reads an integer with \<open>sqlite3_column_double\<close>, so
  a number arrives as the nearest double.
\<close>

definition to_js :: "jsval \<Rightarrow> jsval" where
  "to_js v =
     (case v of
        JNum n \<Rightarrow> (case double_of_int n of None \<Rightarrow> v | Some m \<Rightarrow> JNum m)
      | _ \<Rightarrow> v)"

definition getAsObject :: "table \<Rightarrow> string list \<Rightarrow> row \<Rightarrow> row" where
  "getAsObject t cols r =
     (\<lambda>k. if k \<in> set (List.map_filter (declared t) cols) then Some (to_js (stored r k)) else None)"

text \<open>
  \<open>FROM "${table}"\<close>: the table of that name, upper and lower case ASCII letters being
  equal; it is an error if the file has none. (A name with a double quote in it is dealt
  with in the operations.)
\<close>

definition from_table :: "database \<Rightarrow> string \<Rightarrow> error + table" where
  "from_table db name =
     (case find (\<lambda>(n, t). same_name name n) db of None \<Rightarrow> Inl SqlError | Some (n, t) \<Rightarrow> Inr t)"

definition has_quote :: "string \<Rightarrow> bool" where
  "has_quote name = (CHR 0x22 \<in> set name)"

subsection \<open>\<open>buildWhereClause\<close> and \<open>buildOrderClause\<close>\<close>

text \<open>
  A condition is a list of \<open>column LIKE ?\<close> terms joined by \<open>OR\<close>, each term with the
  parameter bound to it; the clause joins the conditions by \<open>AND\<close>.
\<close>

type_synonym like_term = "string \<times> string"

type_synonym condition = "like_term list"

definition searched_columns :: "string list" where
  "searched_columns =
     [''skill_name'', ''tagline'', ''description'', ''description_zh'', ''description_en'',
      ''use_case'', ''use_case_en'', ''tags'', ''tags_en'']"

definition buildWhereClause :: "string \<Rightarrow> string \<Rightarrow> condition list" where
  "buildWhereClause q cat =
     (let conditions0 = (if cat \<noteq> [] then [[(''categories'', ''%'' @ cat @ ''%'')]] else []);
          conditions1 = (if q \<noteq> []
                         then conditions0 @ [map (\<lambda>c. (c, ''%'' @ q @ ''%'')) searched_columns]
                         else conditions0)
      in conditions1)"

text \<open>
  The clause text puts no parentheses around a condition, and \<open>AND\<close> binds tighter than
  \<open>OR\<close>: \<open>a AND b OR c OR d\<close> is \<open>(a AND b) OR c OR d\<close>. \<open>and_groups\<close> gives the
  conjunctions that SQLite reads out of the joined text; the clause holds when all terms
  of one of them hold. No condition at all is no \<open>WHERE\<close>.
\<close>

fun join_and :: "like_term list list \<Rightarrow> condition \<Rightarrow> like_term list list" where
  "join_and [] c = map (\<lambda>t. [t]) c"
| "join_and gs [] = gs"
| "join_and gs (t # ts) = butlast gs @ [last gs @ [t]] @ map (\<lambda>t. [t]) ts"

definition and_groups :: "condition list \<Rightarrow> like_term list list" where
  "and_groups conditions = foldl join_and [] conditions"

definition where_holds :: "table \<Rightarrow> condition list \<Rightarrow> row \<Rightarrow> bool" where
  "where_holds t conditions r =
     (conditions = []
      \<or> list_ex (list_all (\<lambda>(col, pat). like_holds pat (cell t r col))) (and_groups conditions))"

definition where_columns :: "condition list \<Rightarrow> string list" where
  "where_columns conditions = map fst (concat conditions)"

definition buildOrderClause :: "string \<Rightarrow> order_clause" where
  "buildOrderClause sort_arg =
     (if sort_arg = ''stars'' then RepostarsDesc
      else if sort_arg = ''oldest'' then UpdatedAsc
      else UpdatedDesc)"

subsection \<open>\<open>listSkills\<close>\<close>

text \<open>\<open>cachedTable || selectTableName(db)\<close>.\<close>

definition resolveTable :: "store \<Rightarrow> database \<Rightarrow> string option" where
  "resolveTable st db =
     (case cachedTable st of
        Some t \<Rightarrow> if t \<noteq> [] then Some t else selectTableName db
      | None \<Rightarrow> selectTableName db)"

definition list_columns :: "string list" where
  "list_columns =
     [''id'', ''skill_name'', ''repostars'', ''tagline'', ''tags'', ''tags_en'', ''categories'',
      ''updated_at'']"

text \<open>The rows that pass the \<open>WHERE\<close> clause.\<close>

definition matching :: "condition list \<Rightarrow> table \<Rightarrow> row list" where
  "matching conditions t = filter (where_holds t conditions) (trows t)"

text \<open>
  \<open>Math.max(0, (page - 1) * pageSize)\<close> in double arithmetic: each operation gives the
  double nearest to the exact result, \<open>None\<close> being \<open>Infinity\<close>.
\<close>

definition page_offset :: "int \<Rightarrow> int \<Rightarrow> int option" where
  "page_offset pg psize =
     (case double_of_int (pg - 1) of
        None \<Rightarrow> None
      | Some a \<Rightarrow> if a * psize \<le> 0 then Some 0 else double_of_int (a * psize))"

text \<open>
  The two statements of \<open>listSkills\<close> on the resolved table: the count, then the page.
  \<open>Number(countRow.count) || 0\<close> is the count as sql.js reads it, a double.
\<close>

definition listQuery ::
  "(jsval \<Rightarrow> string list) \<Rightarrow> (jsval \<Rightarrow> string) \<Rightarrow> world \<Rightarrow> database \<Rightarrow> string
     \<Rightarrow> string \<Rightarrow> string \<Rightarrow> int \<Rightarrow> int \<Rightarrow> string \<Rightarrow> error + queryResult" where
  "listQuery parseArrayValue pickCategory w db tbl q cat pg psize sort_arg =
     (let conditions = buildWhereClause q cat;
          orderClause = buildOrderClause sort_arg;
          offset = page_offset pg psize
      in if has_quote tbl then otherList w
         else case from_table db tbl of
           Inl e \<Rightarrow> Inl e
         | Inr t \<Rightarrow>
             if \<not> has_columns t (where_columns conditions) then Inl SqlError
             else if \<not> has_columns t (list_columns @ where_columns conditions) then Inl SqlError
             else
               (let total = nearest_double (length (matching conditions t))
                in case sql_limit psize offset (rowOrder w (Some orderClause) (matching conditions t)) of
                     Inl e \<Rightarrow> Inl e
                   | Inr page_rows \<Rightarrow>
                       Inr \<lparr> items = map (\<lambda>(index, r). normalizeSkill parseArrayValue pickCategory r index)
                                         (enumerate 0 (map (getAsObject t list_columns) page_rows)),
                             total_count = total, page = pg, pageSize = psize \<rparr>))"

definition listSkills ::
  "(jsval \<Rightarrow> string list) \<Rightarrow> (jsval \<Rightarrow> string) \<Rightarrow> config \<Rightarrow> world \<Rightarrow> store
     \<Rightarrow> string \<Rightarrow> string \<Rightarrow> int \<Rightarrow> int \<Rightarrow> string \<Rightarrow> (error + queryResult) \<times> store" where
  "listSkills parseArrayValue pickCategory cfg w st q cat pg psize sort_arg =
     (case getDb cfg w st of
        (Inl e, st') \<Rightarrow> (Inl e, st')
      | (Inr db, st') \<Rightarrow>
          (case resolveTable st' db of
             None \<Rightarrow> (Inr \<lparr> items = [], total_count = 0, page = pg, pageSize = psize \<rparr>, st')
           | Some tbl \<Rightarrow>
               (listQuery parseArrayValue pickCategory w db tbl q cat pg psize sort_arg, st')))"

subsection \<open>\<open>decodeURIComponent\<close>\<close>

text \<open>
  A \<open>%\<close> must be followed by two hexadecimal digits. An escaped byte below \<open>0x80\<close> is a
  character; an escaped lead byte must be followed by its escaped continuation bytes, and
  the bytes must be well-formed UTF-8. Anything else is a \<open>URIError\<close>.
\<close>

definition hex_value :: "char \<Rightarrow> nat option" where
  "hex_value c =
     (let n = (of_char c :: nat) in
        if 48 \<le> n \<and> n \<le> 57 then Some (n - 48)
        else if 65 \<le> n \<and> n \<le> 70 then Some (n - 55)
        else if 97 \<le> n \<and> n \<le> 102 then Some (n - 87)
        else None)"

datatype uri_item = Plain char | Escaped nat

fun unescape :: "string \<Rightarrow> error + uri_item list" where
  "unescape [] = Inr []"
| "unescape (c # cs) =
     (if c \<noteq> CHR ''%'' then (case unescape cs of Inl e \<Rightarrow> Inl e | Inr xs \<Rightarrow> Inr (Plain c # xs))
      else (case cs of
              h1 # h2 # rest \<Rightarrow>
                (case (hex_value h1, hex_value h2) of
                   (Some a, Some b) \<Rightarrow>
                     (case unescape rest of Inl e \<Rightarrow> Inl e | Inr xs \<Rightarrow> Inr (Escaped (16 * a + b) # xs))
                 | _ \<Rightarrow> Inl URIError)
            | _ \<Rightarrow> Inl URIError))"

text \<open>The number of bytes a lead byte announces; \<open>0\<close> for a byte that cannot lead.\<close>

definition utf8_length :: "nat \<Rightarrow> nat" where
  "utf8_length b =
     (if 192 \<le> b \<and> b < 224 then 2 else if 224 \<le> b \<and> b < 240 then 3
      else if 240 \<le> b \<and> b < 248 then 4 else 0)"

text \<open>Well-formed UTF-8 byte sequences (table 3-7 of the Unicode standard).\<close>

fun utf8_well_formed :: "nat list \<Rightarrow> bool" where
  "utf8_well_formed [a, b] = (194 \<le> a \<and> a \<le> 223 \<and> 128 \<le> b \<and> b \<le> 191)"
| "utf8_well_formed [a, b, c] =
     (128 \<le> c \<and> c \<le> 191 \<and>
      ((a = 224 \<and> 160 \<le> b \<and> b \<le> 191)
       \<or> (225 \<le> a \<and> a \<le> 236 \<and> 128 \<le> b \<and> b \<le> 191)
       \<or> (a = 237 \<and> 128 \<le> b \<and> b \<le> 159)
       \<or> (238 \<le> a \<and> a \<le> 239 \<and> 128 \<le> b \<and> b \<le> 191)))"
| "utf8_well_formed [a, b, c, d] =
     (128 \<le> c \<and> c \<le> 191 \<and> 128 \<le> d \<and> d \<le> 191 \<and>
      ((a = 240 \<and> 144 \<le> b \<and> b \<le> 191)
       \<or> (241 \<le> a \<and> a \<le> 243 \<and> 128 \<le> b \<and> b \<le> 191)
       \<or> (a = 244 \<and> 128 \<le> b \<and> b \<le> 143)))"
| "utf8_well_formed bs = False"

text \<open>
  \<open>decode_items k acc xs\<close>: \<open>k\<close> continuation bytes are still due for the sequence
  collected in \<open>acc\<close>.
\<close>

fun decode_items :: "nat \<Rightarrow> nat list \<Rightarrow> uri_item list \<Rightarrow> error + string" where
  "decode_items 0 acc [] = Inr []"
| "decode_items (Suc k) acc [] = Inl URIError"
| "decode_items 0 acc (Plain c # xs) =
     (case decode_items 0 [] xs of Inl e \<Rightarrow> Inl e | Inr s \<Rightarrow> Inr (c # s))"
| "decode_items (Suc k) acc (Plain c # xs) = Inl URIError"
| "decode_items 0 acc (Escaped b # xs) =
     (if b < 128 then (case decode_items 0 [] xs of Inl e \<Rightarrow> Inl e | Inr s \<Rightarrow> Inr (char_of b # s))
      else if utf8_length b = 0 then Inl URIError
      else decode_items (utf8_length b - 1) [b] xs)"
| "decode_items (Suc k) acc (Escaped b # xs) =
     (if k > 0 then decode_items k (acc @ [b]) xs
      else if utf8_well_formed (acc @ [b])
      then (case decode_items 0 [] xs of
              Inl e \<Rightarrow> Inl e | Inr s \<Rightarrow> Inr (map char_of (acc @ [b]) @ s))
      else Inl URIError)"

definition decodeURIComponent :: "string \<Rightarrow> error + string" where
  "decodeURIComponent s = (case unescape s of Inl e \<Rightarrow> Inl e | Inr xs \<Rightarrow> decode_items 0 [] xs)"

subsection \<open>\<open>getSkillByIdentifier\<close>\<close>

text \<open>The test \<open>/^\d+$/\<close>, and the decimal value of a string that passes it.\<close>

definition is_digit :: "char \<Rightarrow> bool" where
  "is_digit c = (let n = (of_char c :: nat) in 48 \<le> n \<and> n \<le> 57)"

definition all_digits :: "string \<Rightarrow> bool" where
  "all_digits s = (s \<noteq> [] \<and> list_all is_digit s)"

definition number_of_digits :: "string \<Rightarrow> nat" where
  "number_of_digits s = foldl (\<lambda>a c. 10 * a + (of_char c - 48)) 0 s"

text \<open>
  \<open>Number\<close> of a string of digits gives the double nearest to its decimal value,
  \<open>Infinity\<close> (here \<open>None\<close>) when that is too large.
\<close>

definition js_Number :: "string \<Rightarrow> int option" where
  "js_Number s = map_option int (double_of_nat (number_of_digits s))"

text \<open>How sql.js binds a number: \<open>n === (n | 0)\<close> holds for the 32-bit integers.\<close>

definition bind_number :: "int option \<Rightarrow> bind_value" where
  "bind_number v =
     (case v of
        None \<Rightarrow> BindDouble None
      | Some n \<Rightarrow> if - (2 ^ 31) \<le> n \<and> n < 2 ^ 31 then BindInt n else BindDouble (Some n))"

text \<open>
  The statement of \<open>getSkillByIdentifier\<close> and the rows it steps through:
  \<open>SELECT * ... WHERE id = ? LIMIT 1\<close> for a number, \<open>... WHERE skill_name = ? LIMIT 1\<close>
  for a name.
\<close>

definition found :: "world \<Rightarrow> table \<Rightarrow> string \<Rightarrow> bind_value \<Rightarrow> row list" where
  "found w t col b = filter (\<lambda>r. sqlEquals w col (cell t r col) b) (trows t)"

definition lookupRows :: "world \<Rightarrow> table \<Rightarrow> string \<Rightarrow> bind_value \<Rightarrow> row list" where
  "lookupRows w t col b =
     map (getAsObject t (tcolumns t)) (take 1 (rowOrder w None (found w t col b)))"

definition lookupQuery ::
  "(jsval \<Rightarrow> string list) \<Rightarrow> (jsval \<Rightarrow> string) \<Rightarrow> world \<Rightarrow> database \<Rightarrow> string \<Rightarrow> jsval
     \<Rightarrow> error + skill option" where
  "lookupQuery parseArrayValue pickCategory w db tbl ident =
     (case decodeURIComponent (js_String (js_or ident (JStr []))) of
        Inl e \<Rightarrow> Inl e
      | Inr decoded \<Rightarrow>
          if has_quote tbl then otherLookup w
          else (case from_table db tbl of
             Inl e \<Rightarrow> Inl e
           | Inr t \<Rightarrow>
               (let col = (if all_digits decoded then ''id'' else ''skill_name'');
                    bound = (if all_digits decoded then bind_number (js_Number decoded)
                             else BindText decoded)
                in if \<not> has_columns t [col] then Inl SqlError
                   else (case lookupRows w t col bound of
                           [] \<Rightarrow> Inr None
                         | r # _ \<Rightarrow> Inr (Some (normalizeSkill parseArrayValue pickCategory r 0))))))"

definition getSkillByIdentifier ::
  "(jsval \<Rightarrow> string list) \<Rightarrow> (jsval \<Rightarrow> string) \<Rightarrow> config \<Rightarrow> world \<Rightarrow> store \<Rightarrow> jsval
     \<Rightarrow> (error + skill option) \<times> store" where
  "getSkillByIdentifier parseArrayValue pickCategory cfg w st ident =
     (case getDb cfg w st of
        (Inl e, st') \<Rightarrow> (Inl e, st')
      | (Inr db, st') \<Rightarrow>
          (case resolveTable st' db of
             None \<Rightarrow> (Inr None, st')
           | Some tbl \<Rightarrow> (lookupQuery parseArrayValue pickCategory w db tbl ident, st')))"

subsection \<open>\<open>getSkillSummary\<close>\<close>

text \<open>
  \<open>counts\<close> is an object literal, so a read \<open>counts[k]\<close> that finds no own property goes
  on to \<open>Object.prototype\<close>. Its properties are built-in functions, which print as
  \<open>function name() { [native code] }\<close>, and the accessor \<open>__proto__\<close>, which reads as the
  prototype object itself.
\<close>

definition objectPrototype :: "string \<Rightarrow> jsval option" where
  "objectPrototype k =
     (if k = ''constructor'' then Some (JFun ''function Object() { [native code] }'')
      else if k = ''__proto__'' then Some (JFun ''[object Object]'')
      else if k \<in> set [''toString'', ''toLocaleString'', ''valueOf'', ''hasOwnProperty'',
                        ''isPrototypeOf'', ''propertyIsEnumerable'', ''__defineGetter__'',
                        ''__defineSetter__'', ''__lookupGetter__'', ''__lookupSetter__'']
      then Some (JFun (''function '' @ k @ ''() { [native code] }''))
      else None)"

definition readCount :: "counts \<Rightarrow> string \<Rightarrow> jsval" where
  "readCount c k =
     (case c k of
        Some v \<Rightarrow> v
      | None \<Rightarrow> (case objectPrototype k of Some v \<Rightarrow> v | None \<Rightarrow> JUndefined))"

text \<open>
  \<open>(v || 0) + 1\<close>: a truthy number is incremented; any other truthy value makes \<open>+\<close> a
  string concatenation; a falsy value gives way to \<open>0\<close>.
\<close>

definition or_zero_plus_one :: "jsval \<Rightarrow> jsval" where
  "or_zero_plus_one v =
     (if truthy v then (case v of JNum n \<Rightarrow> JNum (n + 1) | _ \<Rightarrow> JStr (js_String v @ ''1''))
      else JNum 1)"

text \<open>
  The assignment \<open>counts[k] = v\<close> with a number or a string on the right: an own property,
  except for \<open>__proto__\<close>, whose setter ignores a value that is no object.
\<close>

definition writeCount :: "counts \<Rightarrow> string \<Rightarrow> jsval \<Rightarrow> counts" where
  "writeCount c k v = (if k = ''__proto__'' then c else c(k \<mapsto> v))"

definition countRow :: "(jsval \<Rightarrow> string) \<Rightarrow> counts \<Rightarrow> row \<Rightarrow> counts" where
  "countRow pickCategory c r =
     (let cat = pickCategory (getProp r ''categories'')
      in writeCount c cat (or_zero_plus_one (readCount c cat)))"

definition summaryQuery ::
  "(jsval \<Rightarrow> string) \<Rightarrow> world \<Rightarrow> database \<Rightarrow> string \<Rightarrow> error + summary" where
  "summaryQuery pickCategory w db tbl =
     (if has_quote tbl then otherSummary w
      else case from_table db tbl of
        Inl e \<Rightarrow> Inl e
      | Inr t \<Rightarrow>
          if \<not> has_columns t [''categories''] then Inl SqlError
          else (let rows = map (getAsObject t [''categories'']) (rowOrder w None (trows t))
                in Inr \<lparr> summary_total = length rows,
                          summary_counts = foldl (countRow pickCategory) Map.empty rows \<rparr>))"

definition getSkillSummary ::
  "(jsval \<Rightarrow> string) \<Rightarrow> config \<Rightarrow> world \<Rightarrow> store \<Rightarrow> (error + summary) \<times> store" where
  "getSkillSummary pickCategory cfg w st =
     (case getDb cfg w st of
        (Inl e, st') \<Rightarrow> (Inl e, st')
      | (Inr db, st') \<Rightarrow>
          (case resolveTable st' db of
             None \<Rightarrow> (Inr \<lparr> summary_total = 0, summary_counts = Map.empty \<rparr>, st')
           | Some tbl \<Rightarrow> (summaryQuery pickCategory w db tbl, st')))"

section \<open>Concurrent callers of \<open>getDb\<close>\<close>

text \<open>
  JavaScript runs one piece of code at a time and lets go only at an \<open>await\<close>. The body
  of \<open>getDb\<close> has no \<open>await\<close> outside the load it starts, and every loader awaits (the
  file system or the network) before it finishes; so a call of \<open>getDb\<close> runs to its
  \<open>return\<close> in one step, with \<open>loadingPromise\<close> set when it started a load, and the end
  of a load, which clears \<open>loadingPromise\<close>, is a later step. Between the two only calls
  of \<open>getDb\<close> run on the store, and they do not write it, so the load is taken as one
  step at the moment it settles.

  \<open>nextPromise\<close>, \<open>loadsStarted\<close> and \<open>loadsSettled\<close> are not in the code: they name
  the promises and count the loads.
\<close>

record pending =
  promiseId :: nat
  pendingSource :: dbSource

record manager =
  mstore :: store
  loadingPromise :: "pending option"
  nextPromise :: nat
  loadsStarted :: nat
  loadsSettled :: nat

text \<open>What a caller of \<open>getDb\<close> gets: the cached handle, or the promise of a load.\<close>

datatype answer = Ready database | Joined nat

definition startOrJoin :: "config \<Rightarrow> manager \<Rightarrow> answer \<times> manager" where
  "startOrJoin cfg m =
     (case loadingPromise m of
        Some p \<Rightarrow> (Joined (promiseId p), m)
      | None \<Rightarrow>
          (Joined (nextPromise m),
           m\<lparr> loadingPromise := Some \<lparr> promiseId = nextPromise m, pendingSource = getDbSource cfg \<rparr>,
              nextPromise := nextPromise m + 1,
              loadsStarted := loadsStarted m + 1 \<rparr>))"

definition enterGetDb :: "config \<Rightarrow> int \<Rightarrow> manager \<Rightarrow> answer \<times> manager" where
  "enterGetDb cfg t m =
     (case cachedDb (mstore m) of
        Some db \<Rightarrow> if \<not> needsCheck cfg (mstore m) t then (Ready db, m) else startOrJoin cfg m
      | None \<Rightarrow> startOrJoin cfg m)"

text \<open>The load in flight settles: its promise and what the promise resolves or rejects with.\<close>

definition settle :: "world \<Rightarrow> manager \<Rightarrow> (nat \<times> (error + database)) option \<times> manager" where
  "settle w m =
     (case loadingPromise m of
        None \<Rightarrow> (None, m)
      | Some p \<Rightarrow>
          (case load w (mstore m) (pendingSource p) of
             (res, st') \<Rightarrow>
               (Some (promiseId p, res),
                m\<lparr> mstore := st', loadingPromise := None, loadsSettled := loadsSettled m + 1 \<rparr>)))"

text \<open>Callers that arrive one after the other, at the times given, with no load settling.\<close>

fun callers :: "config \<Rightarrow> int list \<Rightarrow> manager \<Rightarrow> answer list \<times> manager" where
  "callers cfg [] m = ([], m)"
| "callers cfg (t # ts) m =
     (case enterGetDb cfg t m of
        (a, m') \<Rightarrow> (case callers cfg ts m' of (as, m'') \<Rightarrow> (a # as, m'')))"

text \<open>Any schedule of calls and settlements.\<close>

datatype event = Call config int | Settle world

fun step :: "manager \<Rightarrow> event \<Rightarrow> manager" where
  "step m (Call cfg t) = snd (enterGetDb cfg t m)"
| "step m (Settle w) = snd (settle w m)"

definition run :: "manager \<Rightarrow> event list \<Rightarrow> manager" where
  "run m es = foldl step m es"

definition initialManager :: manager where
  "initialManager =
     \<lparr> mstore = initialStore, loadingPromise = None, nextPromise = 0,
       loadsStarted = 0, loadsSettled = 0 \<rparr>"

section \<open>Sample inputs\<close>

text \<open>The two rows of the specification's end-to-end example, in a table \<open>skills\<close>.\<close>

definition all_columns :: "string list" where
  "all_columns = list_columns @ [''description'', ''description_zh'', ''description_en'',
                                 ''use_case'', ''use_case_en'']"

definition alpha :: row where
  "alpha = [''id'' \<mapsto> JNum 1, ''skill_name'' \<mapsto> JStr ''alpha'',
            ''categories'' \<mapsto> JStr ''coding'', ''repostars'' \<mapsto> JNum 5,
            ''updated_at'' \<mapsto> JStr ''2024-01-01'']"

definition beta :: row where
  "beta = [''id'' \<mapsto> JNum 2, ''skill_name'' \<mapsto> JStr ''beta'',
           ''categories'' \<mapsto> JStr ''coding'', ''repostars'' \<mapsto> JNum 50,
           ''updated_at'' \<mapsto> JStr ''2024-02-01'']"

definition exampleDb :: database where
  "exampleDb = [(''skills'', \<lparr> tcolumns = all_columns, trows = [alpha, beta] \<rparr>)]"


definition localConfig :: config where
  "localConfig =
     \<lparr> SKILL_DB_URL = [], NEXT_PUBLIC_SKILL_DB_URL = [], SKILL_DB_REVALIDATE_MS = 0,
       DEFAULT_DB_PATH = ''/app/public/skill.db'' \<rparr>"

definition remoteConfig :: config where
  "remoteConfig = localConfig\<lparr> SKILL_DB_URL := ''https://example.com/skill.db'' \<rparr>"

text \<open>A store that holds \<open>db\<close>, loaded from \<open>src\<close> at time \<open>0\<close> with the validator \<open>v1\<close>.\<close>

definition readyStore :: "database \<Rightarrow> string \<Rightarrow> store" where
  "readyStore db src =
     \<lparr> cachedDb = Some db, cachedTable = Some ''skills'',
       cachedMeta = \<lparr> source = src, etag = ''v1'', lastModified = [], lastChecked = 0, mtimeMs = 7 \<rparr> \<rparr>"

text \<open>
  An engine for the samples. It returns rows in the order of the table when there is no
  \<open>ORDER BY\<close>, and otherwise sorts them by the column, NULL first, then numbers, then text
  in byte order, then BLOBs, ties in the order of the table. It compares a stored value
  with a bound one by value, as SQLite does on a column of integer affinity (for \<open>id\<close>)
  or of text affinity (for \<open>skill_name\<close>) whose values are of that kind.
\<close>

fun storage_class :: "jsval \<Rightarrow> nat" where
  "storage_class (JNum n) = 1"
| "storage_class (JStr s) = 2"
| "storage_class (JBlob b) = 3"
| "storage_class v = 0"

fun sql_le :: "jsval \<Rightarrow> jsval \<Rightarrow> bool" where
  "sql_le (JNum a) (JNum b) = (a \<le> b)"
| "sql_le (JStr a) (JStr b) = (a \<le> b)"
| "sql_le (JBlob a) (JBlob b) = (a \<le> b)"
| "sql_le a b = (storage_class a \<le> storage_class b)"

fun insert_by :: "('a \<Rightarrow> 'a \<Rightarrow> bool) \<Rightarrow> 'a \<Rightarrow> 'a list \<Rightarrow> 'a list" where
  "insert_by le x [] = [x]"
| "insert_by le x (y # ys) = (if le x y then x # y # ys else y # insert_by le x ys)"

definition sort_by :: "('a \<Rightarrow> 'a \<Rightarrow> bool) \<Rightarrow> 'a list \<Rightarrow> 'a list" where
  "sort_by le xs = foldr (insert_by le) xs []"

definition order_asc :: "string \<Rightarrow> row list \<Rightarrow> row list" where
  "order_asc col rows = sort_by (\<lambda>a b. sql_le (getProp a col) (getProp b col)) rows"

definition order_desc :: "string \<Rightarrow> row list \<Rightarrow> row list" where
  "order_desc col rows = sort_by (\<lambda>a b. sql_le (getProp b col) (getProp a col)) rows"

fun order_rows :: "order_clause option \<Rightarrow> row list \<Rightarrow> row list" where
  "order_rows None rows = rows"
| "order_rows (Some RepostarsDesc) rows = order_desc ''repostars'' rows"
| "order_rows (Some UpdatedAsc) rows = order_asc ''updated_at'' rows"
| "order_rows (Some UpdatedDesc) rows = order_desc ''updated_at'' rows"

fun plain_equals :: "string \<Rightarrow> jsval \<Rightarrow> bind_value \<Rightarrow> bool" where
  "plain_equals col v (BindInt n) = (v = JNum n)"
| "plain_equals col v (BindDouble (Some n)) = (v = JNum n)"
| "plain_equals col v (BindDouble None) = False"
| "plain_equals col v (BindText s) = (v = JStr s)"

text \<open>A world in which nothing can be reached, at time \<open>t\<close>, with that engine.\<close>

definition offline :: "int \<Rightarrow> world" where
  "offline t =
     \<lparr> now = t, statFile = (\<lambda>p. Inl FsError), readFile = (\<lambda>p. Inl FsError),
       fetch = (\<lambda>rq. Inl NetworkError), sqlOpen = (\<lambda>b. Inl OpenFailed),
       rowOrder = order_rows, sqlEquals = plain_equals,
       otherList = Inl SqlError, otherLookup = Inl SqlError, otherSummary = Inl SqlError \<rparr>"

text \<open>A server that answers every request with the same response.\<close>

definition answering :: "response \<Rightarrow> request \<Rightarrow> error + response" where
  "answering r rq = Inr r"

text \<open>A server that rejects \<open>HEAD\<close> at the network level and answers \<open>GET\<close>.\<close>

definition get_only :: "response \<Rightarrow> request \<Rightarrow> error + response" where
  "get_only r rq = (if verb rq = GET then Inr r else Inl NetworkError)"

text \<open>One day, in milliseconds: later than the default revalidation interval.\<close>

definition next_day :: int where
  "next_day = 24 * 60 * 60 * 1000"

section \<open>What a store that went through the loaders looks like\<close>

text \<open>Whenever a dataset is cached, the name of its table is cached with it.\<close>

definition table_known :: "store \<Rightarrow> bool" where
  "table_known st = (cachedDb st = None \<or> (\<exists>t. cachedTable st = Some t \<and> t \<noteq> []))"

section \<open>Verification\<close>

subsection \<open>Strings\<close>

lemma dec_nat_nonempty: "dec_nat n \<noteq> []"
  by (subst dec_nat.simps) simp

lemma encode_byte_nonempty: "encode_byte c \<noteq> []"
  by (simp add: encode_byte_def)

lemma encodeURIComponent_empty: "encodeURIComponent s = [] \<longleftrightarrow> s = []"
  by (cases s) (simp_all add: encodeURIComponent_def encode_byte_nonempty)

lemma join_commas_nonempty:
  "xs \<noteq> [] \<Longrightarrow> \<forall>x \<in> set xs. x \<noteq> [] \<Longrightarrow> join_commas xs \<noteq> []"
  by (induction xs rule: join_commas.induct) auto

text \<open>\<open>String(v)\<close> is empty only for the empty string, the empty BLOB and an object that
  prints as nothing.\<close>

lemma render_digits_nonempty: "render_digits v \<noteq> []"
  unfolding render_digits_def Let_def
  by (auto simp: dec_nat_nonempty split: list.splits)

lemma number_string_nonempty: "number_string n \<noteq> []"
  unfolding number_string_def
  by (auto simp: dec_nat_nonempty render_digits_nonempty split: option.splits)

lemma js_String_empty: "js_String v = [] \<longleftrightarrow> v = JStr [] \<or> v = JBlob [] \<or> v = JFun []"
proof (cases v)
  case (JBlob b)
  have "b \<noteq> [] \<Longrightarrow> join_commas (map (\<lambda>c. dec_nat (of_char c)) b) \<noteq> []"
    using join_commas_nonempty [of "map (\<lambda>c. dec_nat (of_char c)) b"]
    by (auto simp: dec_nat_nonempty)
  with JBlob show ?thesis by auto
qed (auto simp: number_string_nonempty)

text \<open>Below \<open>2^53\<close> every integer is a double and prints as its decimal digits.\<close>

lemma js_String_small: "\<bar>k\<bar> < 2 ^ 53 \<Longrightarrow> js_String (JNum k) = dec_int k"
  by (auto simp: number_string_def dec_int_def)

lemma js_String_position: "i + 1 < 2 ^ 53 \<Longrightarrow> js_String (JNum (int i + 1)) = dec_nat (i + 1)"
  by (auto simp: number_string_def nat_add_distrib)

subsection \<open>Key precedence of the normalizer\<close>

lemma resolveKeys_Cons: "resolveKeys r (k # ks) d = js_or (getProp r k) (resolveKeys r ks d)"
  by (simp add: js_or_def)

text \<open>
  C1 (as the code has it). Every field that is read from the row is resolved from a fixed
  list of keys, the first truthy value winning and a fixed default (the empty string, or
  \<open>0\<close> for \<open>repostars\<close>) closing the list. The order is snake_case, camelCase, alias for
  most fields, but \<open>fromRepo\<close> and \<open>skillPath\<close> try the camelCase key before the
  snake_case one, \<open>repostars\<close> tries \<open>repostars\<close>, \<open>repoStars\<close>, \<open>stars\<close>,
  \<open>description\<close> tries \<open>description_zh\<close>, \<open>descriptionZh\<close> and only then
  \<open>description\<close>, and the raw value of \<open>tags_en\<close> falls back to whatever \<open>tagsEn\<close>
  holds. \<open>tags\<close> and \<open>categories\<close> are read from one key each.
\<close>

theorem normalizeSkill_key_precedence:
  "(let n = normalizeSkill parseArrayValue pickCategory r i in
      skill_name n = resolveKeys r [''skill_name'', ''skillName'', ''name''] (JStr [])
    \<and> fromRepo n = resolveKeys r [''fromRepo'', ''from_repo''] (JStr [])
    \<and> skillPath n = resolveKeys r [''skillPath'', ''skill_path''] (JStr [])
    \<and> repostars n = resolveKeys r [''repostars'', ''repoStars'', ''stars''] (JNum 0)
    \<and> tagline n = resolveKeys r [''tagline''] (JStr [])
    \<and> tags n = parseArrayValue (getProp r ''tags'')
    \<and> tags_en n = parseArrayValue (resolveKeys r [''tags_en''] (getProp r ''tagsEn''))
    \<and> categories n = parseArrayValue (getProp r ''categories'')
    \<and> description n = resolveKeys r [''description_zh'', ''descriptionZh'', ''description''] (JStr [])
    \<and> description_zh n = resolveKeys r [''description_zh'', ''descriptionZh'', ''description''] (JStr [])
    \<and> description_en n = resolveKeys r [''description_en'', ''descriptionEn''] (JStr [])
    \<and> use_case n = resolveKeys r [''use_case'', ''useCase''] (JStr [])
    \<and> use_case_en n = resolveKeys r [''use_case_en'', ''useCaseEn''] (JStr [])
    \<and> download_url n = resolveKeys r [''download_url'', ''downloadUrl''] (JStr [])
    \<and> skill_md_content n = resolveKeys r [''skill_md_content'', ''skillMdContent''] (JStr [])
    \<and> skill_md_content_translation n =
          resolveKeys r [''skill_md_content_translation'', ''skillMdContentTranslation''] (JStr [])
    \<and> file_tree n = resolveKeys r [''file_tree'', ''fileTree''] (JStr [])
    \<and> how_to_install n = resolveKeys r [''how_to_install'', ''howToInstall''] (JStr [])
    \<and> created_at n = resolveKeys r [''created_at'', ''createdAt''] (JStr [])
    \<and> updated_at n = resolveKeys r [''updated_at'', ''updatedAt''] (JStr []))"
  by (simp add: normalizeSkill_def Let_def resolveKeys_Cons del: resolveKeys.simps(2))

text \<open>
  The same theorem at a row that carries both spellings of \<open>skill_name\<close> and of
  \<open>fromRepo\<close> and an empty \<open>tagline\<close>.
\<close>

theorem normalizeSkill_key_precedence_witness:
  "(let n = normalizeSkill (\<lambda>v. []) (\<lambda>v. ''other'')
              [''skill_name'' \<mapsto> JStr ''s'', ''skillName'' \<mapsto> JStr ''c'',
               ''fromRepo'' \<mapsto> JStr ''A'', ''from_repo'' \<mapsto> JStr ''B'',
               ''tagline'' \<mapsto> JStr []] 0 in
      skill_name n = JStr ''s'' \<and> fromRepo n = JStr ''A'' \<and> tagline n = JStr []
      \<and> repostars n = JNum 0)"
  using normalizeSkill_key_precedence [of "\<lambda>v. []" "\<lambda>v. ''other''"
      "[''skill_name'' \<mapsto> JStr ''s'', ''skillName'' \<mapsto> JStr ''c'',
        ''fromRepo'' \<mapsto> JStr ''A'', ''from_repo'' \<mapsto> JStr ''B'',
        ''tagline'' \<mapsto> JStr []]" 0]
  by (simp add: Let_def getProp_def)

text \<open>
  C1 as the specification words it (snake_case before camelCase for every field) fails for
  \<open>fromRepo\<close>: with both keys present the code returns the camelCase value.
\<close>

theorem normalizeSkill_snake_case_first_counterexample:
  "fromRepo (normalizeSkill (\<lambda>v. []) (\<lambda>v. ''other'')
        [''fromRepo'' \<mapsto> JStr ''A'', ''from_repo'' \<mapsto> JStr ''B''] 0)
   \<noteq> resolveKeys [''fromRepo'' \<mapsto> JStr ''A'', ''from_repo'' \<mapsto> JStr ''B'']
        [''from_repo'', ''fromRepo''] (JStr [])"
  by (simp add: normalizeSkill_def Let_def js_or_def getProp_def)

subsection \<open>The identifier\<close>

text \<open>
  C2 (as the code has it). The identifier is \<open>String(id)\<close> when \<open>id\<close> is neither
  \<open>undefined\<close> nor \<open>null\<close>: for a number that is non-empty, and it is the decimal string
  when the number is of magnitude below \<open>2^53\<close> (beyond, \<open>String\<close> prints the shortest
  digits that read back as the same double, in exponent form from \<open>1e21\<close> on). Else it
  is the \<open>encodeURIComponent\<close> form of the resolved \<open>skill_name\<close> when that is truthy,
  else \<open>String(index + 1)\<close>, the decimal string of \<open>index + 1\<close> for every position below
  \<open>2^53\<close>. It is empty exactly when the value it is taken from (a present \<open>id\<close>, or a
  truthy \<open>skill_name\<close> when \<open>id\<close> is absent) converts to the empty string; by
  \<open>js_String_empty\<close> that needs an empty string or an empty BLOB, so an identifier taken
  from a number, from a non-empty string or from the position is non-empty.
\<close>

theorem normalizeSkill_identifier:
  "(let n = normalizeSkill parseArrayValue pickCategory r i; rid = getProp r ''id'' in
      (\<not> nullish rid \<longrightarrow> skill_identifier n = js_String rid)
    \<and> (\<forall>k. rid = JNum k \<longrightarrow>
          skill_identifier n \<noteq> [] \<and> (\<bar>k\<bar> < 2 ^ 53 \<longrightarrow> skill_identifier n = dec_int k))
    \<and> (nullish rid \<and> truthy (skill_name n) \<longrightarrow>
          skill_identifier n = encodeURIComponent (js_String (skill_name n)))
    \<and> (nullish rid \<and> \<not> truthy (skill_name n) \<longrightarrow>
          skill_identifier n = js_String (JNum (int i + 1))
          \<and> (i + 1 < 2 ^ 53 \<longrightarrow> skill_identifier n = dec_nat (i + 1)))
    \<and> (skill_identifier n = [] \<longleftrightarrow>
          (\<not> nullish rid \<and> js_String rid = [])
          \<or> (nullish rid \<and> truthy (skill_name n) \<and> js_String (skill_name n) = [])))"
proof -
  let ?n = "normalizeSkill parseArrayValue pickCategory r i"
  let ?rid = "getProp r ''id''"
  have ident: "skill_identifier ?n =
      (if \<not> nullish ?rid then js_String ?rid
       else if truthy (skill_name ?n) then encodeURIComponent (js_String (skill_name ?n))
       else js_String (JNum (int i + 1)))"
    by (simp add: normalizeSkill_def Let_def nullish_def del: js_String.simps)
  have num: "skill_identifier ?n \<noteq> [] \<and> (\<bar>k\<bar> < 2 ^ 53 \<longrightarrow> skill_identifier ?n = dec_int k)"
    if "?rid = JNum k" for k
    using that ident js_String_empty [of "JNum k"] js_String_small [of k]
    by (simp add: nullish_def del: js_String.simps)
  have empty: "skill_identifier ?n = [] \<longleftrightarrow>
          (\<not> nullish ?rid \<and> js_String ?rid = [])
          \<or> (nullish ?rid \<and> truthy (skill_name ?n) \<and> js_String (skill_name ?n) = [])"
    using ident js_String_empty [of "JNum (int i + 1)"]
    by (simp add: encodeURIComponent_empty del: js_String.simps)
  have c1: "\<not> nullish ?rid \<longrightarrow> skill_identifier ?n = js_String ?rid"
    using ident by simp
  have c3: "nullish ?rid \<and> truthy (skill_name ?n) \<longrightarrow>
      skill_identifier ?n = encodeURIComponent (js_String (skill_name ?n))"
    using ident by simp
  have c4: "nullish ?rid \<and> \<not> truthy (skill_name ?n) \<longrightarrow>
          skill_identifier ?n = js_String (JNum (int i + 1))
          \<and> (i + 1 < 2 ^ 53 \<longrightarrow> skill_identifier ?n = dec_nat (i + 1))"
    using ident js_String_position [of i] by (simp del: js_String.simps)
  show ?thesis
    unfolding Let_def using c1 num c3 c4 empty by blast
qed

text \<open>
  The theorem at three rows: one with a numeric \<open>id\<close>, one with only a name (the example
  of the specification, \<open>Foo Bar\<close>), one with neither at position 2.
\<close>

theorem normalizeSkill_identifier_witness:
  "skill_identifier (normalizeSkill (\<lambda>v. []) (\<lambda>v. ''other'')
       [''id'' \<mapsto> JNum 42, ''skill_name'' \<mapsto> JStr ''Foo Bar''] 0) = ''42''
   \<and> skill_identifier (normalizeSkill (\<lambda>v. []) (\<lambda>v. ''other'')
       [''skill_name'' \<mapsto> JStr ''Foo Bar''] 0) = ''Foo%20Bar''
   \<and> skill_identifier (normalizeSkill (\<lambda>v. []) (\<lambda>v. ''other'') Map.empty 2) = ''3''"
proof -
  let ?pa = "\<lambda>v::jsval. [] :: string list" and ?pc = "\<lambda>v::jsval. ''other''"
  let ?r1 = "[''id'' \<mapsto> JNum 42, ''skill_name'' \<mapsto> JStr ''Foo Bar'']"
  let ?r2 = "[''skill_name'' \<mapsto> JStr ''Foo Bar'']"
  have d42: "dec_int 42 = ''42''" by code_simp
  have enc: "encodeURIComponent ''Foo Bar'' = ''Foo%20Bar''" by code_simp
  have d3: "dec_nat 3 = ''3''" by code_simp
  have s3: "number_string 3 = ''3''" by (simp add: number_string_def d3)
  have n2: "skill_name (normalizeSkill ?pa ?pc ?r2 0) = JStr ''Foo Bar''"
    by (simp add: normalizeSkill_def Let_def js_or_def getProp_def)
  have n3: "skill_name (normalizeSkill ?pa ?pc Map.empty 2) = JStr []"
    by (simp add: normalizeSkill_def Let_def js_or_def getProp_def)
  have "skill_identifier (normalizeSkill ?pa ?pc ?r1 0) = ''42''"
    using normalizeSkill_identifier [of ?pa ?pc ?r1 0] d42
    by (simp add: Let_def getProp_def)
  moreover have "skill_identifier (normalizeSkill ?pa ?pc ?r2 0) = ''Foo%20Bar''"
    using normalizeSkill_identifier [of ?pa ?pc ?r2 0] enc n2
    by (simp add: Let_def getProp_def nullish_def)
  moreover have "skill_identifier (normalizeSkill ?pa ?pc Map.empty 2) = ''3''"
    using normalizeSkill_identifier [of ?pa ?pc Map.empty 2] d3 s3 n3
    by (simp add: Let_def getProp_def nullish_def)
  ultimately show ?thesis by simp
qed

text \<open>
  C2 as the specification words it ends with "the identifier is always non-empty". A row
  whose \<open>id\<close> is the empty string (present, so it wins over the name) gets the empty
  identifier.
\<close>

theorem normalizeSkill_identifier_empty_counterexample:
  "skill_identifier (normalizeSkill (\<lambda>v. []) (\<lambda>v. ''other'')
       [''id'' \<mapsto> JStr [], ''skill_name'' \<mapsto> JStr ''Foo Bar''] 0) = []"
  by (simp add: normalizeSkill_def Let_def js_or_def getProp_def)

subsection \<open>Table discovery\<close>

lemma hd_sort_Min:
  fixes xs :: "'a::linorder list"
  assumes "sort xs = n # rest"
  shows "Min (set xs) = n"
proof -
  have s: "sorted (n # rest)" by (metis assms sorted_sort)
  have m: "set (n # rest) = set xs" by (metis assms set_sort)
  show ?thesis
  proof (rule Min_eqI)
    show "finite (set xs)" by simp
    show "n \<in> set xs" using m by auto
    fix y assume "y \<in> set xs"
    then have "y \<in> set (n # rest)" using m by simp
    then show "n \<le> y" using s by auto
  qed
qed

text \<open>
  C3 (as the code has it). Over the names that pass the filter of the query,
  \<open>selectTableName\<close> returns \<open>skills\<close> when it is among them, else \<open>skill\<close> when it is,
  else the least name in byte order provided that name is not the empty string; with no
  name at all it returns nothing, and \<open>buildDbFromBuffer\<close> then fails with the no-table
  error and leaves the cache as it was.
\<close>

theorem selectTableName_preference:
  "(let names = non_system_names db in
      (''skills'' \<in> set names \<longrightarrow> selectTableName db = Some ''skills'')
    \<and> (''skills'' \<notin> set names \<and> ''skill'' \<in> set names \<longrightarrow> selectTableName db = Some ''skill'')
    \<and> (''skills'' \<notin> set names \<and> ''skill'' \<notin> set names \<and> names \<noteq> [] \<and> Min (set names) \<noteq> []
          \<longrightarrow> selectTableName db = Some (Min (set names)))
    \<and> (names = [] \<longrightarrow> selectTableName db = None
          \<and> (\<forall>w st buf meta. sqlOpen w buf = Inr db \<longrightarrow>
                buildDbFromBuffer w st buf meta = (Inl NoTableFound, st))))"
proof -
  let ?names = "non_system_names db"
  have q: "set (table_names_query db) = set ?names"
    by (simp add: table_names_query_def)
  have c1: "''skills'' \<in> set ?names \<longrightarrow> selectTableName db = Some ''skills''"
    by (simp add: selectTableName_def q)
  have c2: "''skills'' \<notin> set ?names \<and> ''skill'' \<in> set ?names \<longrightarrow> selectTableName db = Some ''skill''"
    by (simp add: selectTableName_def q)
  have c3: "selectTableName db = Some (Min (set ?names))"
    if a: "''skills'' \<notin> set ?names" "''skill'' \<notin> set ?names" "?names \<noteq> []" "Min (set ?names) \<noteq> []"
  proof (cases "table_names_query db")
    case Nil
    then have "set ?names = {}" using q by simp
    with a(3) show ?thesis by simp
  next
    case (Cons n rest)
    then have "Min (set ?names) = n"
      using hd_sort_Min [of ?names n rest] by (simp add: table_names_query_def)
    moreover have "''skills'' \<notin> set (n # rest)" "''skill'' \<notin> set (n # rest)"
      using a q Cons by auto
    ultimately show ?thesis
      using a(4) unfolding selectTableName_def Let_def Cons by simp
  qed
  have e: "selectTableName db = None" if "?names = []"
    using that by (simp add: selectTableName_def table_names_query_def)
  have c4: "?names = [] \<longrightarrow> selectTableName db = None
          \<and> (\<forall>w st buf meta. sqlOpen w buf = Inr db \<longrightarrow>
                buildDbFromBuffer w st buf meta = (Inl NoTableFound, st))"
    using e by (simp add: buildDbFromBuffer_def)
  show ?thesis unfolding Let_def using c1 c2 c3 c4 by blast
qed

text \<open>
  The theorem on the tables of the specification's example (\<open>skill\<close>, \<open>misc\<close>, \<open>skills\<close>,
  beside the system table \<open>sqlite_sequence\<close>), on a file without either preferred name, and
  on a file with no table.
\<close>

theorem selectTableName_preference_witness:
  "selectTableName [(''skill'', \<lparr>tcolumns = [], trows = []\<rparr>), (''misc'', \<lparr>tcolumns = [], trows = []\<rparr>),
       (''skills'', \<lparr>tcolumns = [], trows = []\<rparr>), (''sqlite_sequence'', \<lparr>tcolumns = [], trows = []\<rparr>)]
     = Some ''skills''
   \<and> selectTableName [(''zeta'', \<lparr>tcolumns = [], trows = []\<rparr>), (''alpha'', \<lparr>tcolumns = [], trows = []\<rparr>)]
     = Some ''alpha''
   \<and> selectTableName [] = None"
proof -
  let ?t = "\<lparr>tcolumns = [], trows = []\<rparr>"
  let ?d1 = "[(''skill'', ?t), (''misc'', ?t), (''skills'', ?t), (''sqlite_sequence'', ?t)]"
  let ?d2 = "[(''zeta'', ?t), (''alpha'', ?t)]"
  have n1: "non_system_names ?d1 = [''skill'', ''misc'', ''skills'']" by code_simp
  have n2: "non_system_names ?d2 = [''zeta'', ''alpha'']" by code_simp
  have m2: "Min (set [''zeta'', ''alpha'']) = ''alpha''" by code_simp
  have n3: "non_system_names [] = []" by (simp add: non_system_names_def)
  have "selectTableName ?d1 = Some ''skills''"
    using selectTableName_preference [of ?d1] n1 by (simp add: Let_def)
  moreover have "selectTableName ?d2 = Some ''alpha''"
    using selectTableName_preference [of ?d2] n2 m2 by (simp add: Let_def)
  moreover have "selectTableName [] = None"
    using selectTableName_preference [of "[]"] n3 by (simp add: Let_def)
  ultimately show ?thesis by simp
qed

text \<open>
  C3 as the specification words it gives the least remaining name whenever the list is not
  empty. SQLite accepts \<open>CREATE TABLE ""(...)\<close>; with such a table and no preferred name the
  list is not empty, its least name is the empty string, and \<open>names[0] || null\<close> is
  \<open>null\<close>.
\<close>

theorem selectTableName_empty_name_counterexample:
  "non_system_names [([], \<lparr>tcolumns = [], trows = []\<rparr>), (''abc'', \<lparr>tcolumns = [], trows = []\<rparr>)] \<noteq> []
   \<and> selectTableName [([], \<lparr>tcolumns = [], trows = []\<rparr>), (''abc'', \<lparr>tcolumns = [], trows = []\<rparr>)] = None"
  by code_simp

subsection \<open>Remote revalidation\<close>

text \<open>
  C5. A network failure of the \<open>HEAD\<close> is swallowed and the \<open>GET\<close> is issued; a \<open>HEAD\<close>
  304 reports not-modified with the cached validators; a \<open>HEAD\<close> 2xx whose \<open>etag\<close> or
  \<open>last-modified\<close> equals the cached value reports not-modified with the validators of
  that response, whatever a \<open>GET\<close> would have returned; any other \<open>HEAD\<close> answer leads
  to the \<open>GET\<close>. A \<open>GET\<close> 304 reports not-modified, any other status outside 2xx fails,
  and a 2xx whose body arrives yields the bytes with the validators of the response.
  The cache holds a validator when the field of \<open>cachedMeta\<close> is not the empty string,
  which is what the field holds when the server never sent the header.
\<close>

theorem revalidateRemoteDb_protocol:
  "(\<forall>e. fetch w (conditional meta u HEAD) = Inl e \<longrightarrow>
        revalidateRemoteDb w meta u = conditionalGet w meta u)
   \<and> (\<forall>h. fetch w (conditional meta u HEAD) = Inr h \<and> status h = 304 \<longrightarrow>
        revalidateRemoteDb w meta u = Inr (NotModified (etag meta) (lastModified meta)))
   \<and> (\<forall>h. fetch w (conditional meta u HEAD) = Inr h \<and> ok h
          \<and> ((etag meta \<noteq> [] \<and> header_or_empty (etagHeader h) = etag meta)
             \<or> (lastModified meta \<noteq> []
                \<and> header_or_empty (lastModifiedHeader h) = lastModified meta)) \<longrightarrow>
        revalidateRemoteDb w meta u =
          Inr (NotModified (header_or_empty (etagHeader h)) (header_or_empty (lastModifiedHeader h))))
   \<and> (\<forall>h. fetch w (conditional meta u HEAD) = Inr h \<and> status h \<noteq> 304
          \<and> \<not> (ok h
             \<and> ((etag meta \<noteq> [] \<and> header_or_empty (etagHeader h) = etag meta)
                \<or> (lastModified meta \<noteq> []
                   \<and> header_or_empty (lastModifiedHeader h) = lastModified meta))) \<longrightarrow>
        revalidateRemoteDb w meta u = conditionalGet w meta u)
   \<and> (\<forall>g. fetch w (conditional meta u GET) = Inr g \<and> status g = 304 \<longrightarrow>
        conditionalGet w meta u = Inr (NotModified (etag meta) (lastModified meta)))
   \<and> (\<forall>g. fetch w (conditional meta u GET) = Inr g \<and> status g \<noteq> 304 \<and> \<not> ok g \<longrightarrow>
        conditionalGet w meta u = Inl (FetchFailed (status g)))
   \<and> (\<forall>g buf. fetch w (conditional meta u GET) = Inr g \<and> ok g \<and> body g = Inr buf \<longrightarrow>
        conditionalGet w meta u =
          Inr (Downloaded buf (header_or_empty (etagHeader g)) (header_or_empty (lastModifiedHeader g))))"
  by (auto simp: revalidateRemoteDb_def conditionalGet_def Let_def ok_def)

text \<open>
  The theorem against three servers, the cache holding the validator \<open>v1\<close>: one that
  rejects \<open>HEAD\<close> and serves new bytes with the validator \<open>v2\<close>, one that answers 200 with
  the validator \<open>v1\<close>, one that answers 304.
\<close>

theorem revalidateRemoteDb_protocol_witness:
  "revalidateRemoteDb
      ((offline next_day)\<lparr>fetch := get_only \<lparr>status = 200, etagHeader = Some ''v2'',
                                            lastModifiedHeader = None, body = Inr ''bytes''\<rparr>\<rparr>)
      (cachedMeta (readyStore exampleDb ''https://example.com/skill.db''))
      ''https://example.com/skill.db''
     = Inr (Downloaded ''bytes'' ''v2'' [])
   \<and> revalidateRemoteDb
      ((offline next_day)\<lparr>fetch := answering \<lparr>status = 200, etagHeader = Some ''v1'',
                                             lastModifiedHeader = None, body = Inr ''bytes''\<rparr>\<rparr>)
      (cachedMeta (readyStore exampleDb ''https://example.com/skill.db''))
      ''https://example.com/skill.db''
     = Inr (NotModified ''v1'' [])
   \<and> revalidateRemoteDb
      ((offline next_day)\<lparr>fetch := answering \<lparr>status = 304, etagHeader = None,
                                             lastModifiedHeader = None, body = Inr []\<rparr>\<rparr>)
      (cachedMeta (readyStore exampleDb ''https://example.com/skill.db''))
      ''https://example.com/skill.db''
     = Inr (NotModified ''v1'' [])"
proof -
  let ?u = "''https://example.com/skill.db''"
  let ?meta = "cachedMeta (readyStore exampleDb ?u)"
  let ?r2 = "\<lparr>status = 200, etagHeader = Some ''v2'', lastModifiedHeader = None, body = Inr ''bytes''\<rparr>"
  let ?r1 = "\<lparr>status = 200, etagHeader = Some ''v1'', lastModifiedHeader = None, body = Inr ''bytes''\<rparr>"
  let ?r3 = "\<lparr>status = 304, etagHeader = None, lastModifiedHeader = None, body = Inr []\<rparr>"
  let ?w2 = "(offline next_day)\<lparr>fetch := get_only ?r2\<rparr>"
  let ?w1 = "(offline next_day)\<lparr>fetch := answering ?r1\<rparr>"
  let ?w3 = "(offline next_day)\<lparr>fetch := answering ?r3\<rparr>"
  have m: "etag ?meta = ''v1''" "lastModified ?meta = []"
    by (simp_all add: readyStore_def)
  have h2: "fetch ?w2 (conditional ?meta ?u HEAD) = Inl NetworkError"
    and g2: "fetch ?w2 (conditional ?meta ?u GET) = Inr ?r2"
    by (simp_all add: offline_def get_only_def conditional_def)
  have a: "revalidateRemoteDb ?w2 ?meta ?u = Inr (Downloaded ''bytes'' ''v2'' [])"
    using revalidateRemoteDb_protocol [of ?w2 ?meta ?u] h2 g2
    by (simp add: ok_def header_or_empty_def)
  have h1: "fetch ?w1 (conditional ?meta ?u HEAD) = Inr ?r1"
    by (simp add: offline_def answering_def)
  have b: "revalidateRemoteDb ?w1 ?meta ?u = Inr (NotModified ''v1'' [])"
    using revalidateRemoteDb_protocol [of ?w1 ?meta ?u] h1 m
    by (simp add: ok_def header_or_empty_def)
  have h3: "fetch ?w3 (conditional ?meta ?u HEAD) = Inr ?r3"
    by (simp add: offline_def answering_def)
  have c: "revalidateRemoteDb ?w3 ?meta ?u = Inr (NotModified ''v1'' [])"
    using revalidateRemoteDb_protocol [of ?w3 ?meta ?u] h3 m
    by simp
  show ?thesis using a b c by simp
qed

subsection \<open>Failures while a dataset is cached\<close>

text \<open>What the loaders do with a failure, case by case.\<close>

lemma loadRemoteDb_absorbs_revalidation_failure:
  assumes "cachedDb st = Some db" and "source (cachedMeta st) = u"
    and "revalidateRemoteDb w (cachedMeta st) u = Inl e"
  shows "loadRemoteDb w st u = (Inr db, st\<lparr>cachedMeta := (cachedMeta st)\<lparr>lastChecked := now w\<rparr>\<rparr>)"
  using assms by (simp add: loadRemoteDb_def)

lemma loadRemoteDb_rebuild_failure_propagates:
  assumes "cachedDb st = Some db" and "source (cachedMeta st) = u"
    and "revalidateRemoteDb w (cachedMeta st) u = Inr (Downloaded buf e l)"
    and "sqlOpen w buf = Inl err \<or> (\<exists>d. sqlOpen w buf = Inr d \<and> selectTableName d = None \<and> err = NoTableFound)"
  shows "loadRemoteDb w st u = (Inl err, st)"
  using assms by (auto simp: loadRemoteDb_def buildDbFromBuffer_def)

lemma loadLocalDb_stat_failure_propagates:
  assumes "statFile w p = Inl e"
  shows "loadLocalDb w st p = (Inl e, st)"
  using assms by (simp add: loadLocalDb_def)

lemma loadLocalDb_read_failure_propagates:
  assumes "statFile w p = Inr m" and "mtimeMs (cachedMeta st) \<noteq> m" and "readFile w p = Inl e"
  shows "loadLocalDb w st p = (Inl e, st)"
  using assms by (simp add: loadLocalDb_def split: option.splits)

text \<open>
  C4 at two inputs, a dataset being cached for the source and a day having passed. With the
  local source, the file can no longer be read: the error reaches the caller and the attempt
  time is not recorded. With the remote source, the server sends new bytes that are no
  database: the error raised while rebuilding reaches the caller as well. In both the store
  is left as it was.
\<close>

theorem revalidation_failure_reaches_caller:
  "getDb localConfig (offline next_day) (readyStore exampleDb ''/app/public/skill.db'')
     = (Inl FsError, readyStore exampleDb ''/app/public/skill.db'')
   \<and> getDb remoteConfig
       ((offline next_day)\<lparr>fetch := get_only \<lparr>status = 200, etagHeader = Some ''v2'',
                                             lastModifiedHeader = None, body = Inr ''bytes''\<rparr>\<rparr>)
       (readyStore exampleDb ''https://example.com/skill.db'')
     = (Inl OpenFailed, readyStore exampleDb ''https://example.com/skill.db'')"
proof -
  let ?p = "''/app/public/skill.db''" and ?u = "''https://example.com/skill.db''"
  let ?r2 = "\<lparr>status = 200, etagHeader = Some ''v2'', lastModifiedHeader = None, body = Inr ''bytes''\<rparr>"
  let ?w2 = "(offline next_day)\<lparr>fetch := get_only ?r2\<rparr>"
  have srcL: "getDbSource localConfig = Local ?p"
    by (simp add: getDbSource_def localConfig_def)
  have srcR: "getDbSource remoteConfig = Remote ?u"
    by (simp add: getDbSource_def remoteConfig_def localConfig_def is_http_url_def) code_simp
  have staleL: "needsCheck localConfig (readyStore exampleDb ?p) (now (offline next_day))"
    by (simp add: needsCheck_def readyStore_def offline_def next_day_def REVALIDATE_MS_def
        localConfig_def)
  have staleR: "needsCheck remoteConfig (readyStore exampleDb ?u) (now ?w2)"
    by (simp add: needsCheck_def readyStore_def offline_def next_day_def REVALIDATE_MS_def
        localConfig_def remoteConfig_def)
  have l: "loadLocalDb (offline next_day) (readyStore exampleDb ?p) ?p = (Inl FsError, readyStore exampleDb ?p)"
    by (rule loadLocalDb_stat_failure_propagates) (simp add: offline_def)
  have rv: "revalidateRemoteDb ?w2 (cachedMeta (readyStore exampleDb ?u)) ?u = Inr (Downloaded ''bytes'' ''v2'' [])"
    by (simp add: revalidateRemoteDb_def conditionalGet_def offline_def get_only_def
        conditional_def ok_def header_or_empty_def)
  have r: "loadRemoteDb ?w2 (readyStore exampleDb ?u) ?u = (Inl OpenFailed, readyStore exampleDb ?u)"
    by (rule loadRemoteDb_rebuild_failure_propagates [OF _ _ rv])
       (simp_all add: readyStore_def offline_def)
  show ?thesis
    using srcL srcR staleL staleR l r
    by (simp add: getDb_def load_def readyStore_def)
qed

subsection \<open>Pagination\<close>














lemma to_js_other: "storage_class v \<noteq> 1 \<Longrightarrow> to_js v = v"
  by (cases v) (simp_all add: to_js_def)


subsection \<open>Lookup by identifier\<close>






text \<open>Facts about the sample store and the sample engine that the examples below share.\<close>

lemma getDb_fresh_local:
  "getDb localConfig (offline 5) (readyStore db ''/app/public/skill.db'')
     = (Inr db, readyStore db ''/app/public/skill.db'')"
proof -
  have src: "getDbSource localConfig = Local ''/app/public/skill.db''"
    by (simp add: getDbSource_def localConfig_def)
  have rv: "REVALIDATE_MS localConfig = 14400000"
    by (simp add: REVALIDATE_MS_def localConfig_def)
  have "\<not> needsCheck localConfig (readyStore db ''/app/public/skill.db'') (now (offline 5))"
    by (simp add: needsCheck_def src rv readyStore_def offline_def)
  then show ?thesis by (simp add: getDb_def readyStore_def)
qed

lemma resolveTable_ready: "resolveTable (readyStore db src) db' = Some ''skills''"
  by (simp add: resolveTable_def readyStore_def)

lemma skills_no_quote: "\<not> has_quote ''skills''"
  by (simp add: has_quote_def)


lemma rowOrder_offline: "rowOrder (offline n) None rows = rows"
  by (simp add: offline_def)



subsection \<open>No table resolvable\<close>

text \<open>
  The guards of the three operations as they are written: if \<open>getDb\<close> hands over a
  dataset and neither \<open>cachedTable\<close> nor \<open>selectTableName\<close> names a table in it, the
  operations return their empty shapes.
\<close>

lemma guards_as_written:
  assumes "getDb cfg w st = (Inr db, st')"
    and "resolveTable st' db = None"
  shows "listSkills parseArrayValue pickCategory cfg w st q cat pg psize sort_arg
           = (Inr \<lparr> items = [], total_count = 0, page = pg, pageSize = psize \<rparr>, st')
       \<and> getSkillSummary pickCategory cfg w st
           = (Inr \<lparr> summary_total = 0, summary_counts = Map.empty \<rparr>, st')
       \<and> getSkillByIdentifier parseArrayValue pickCategory cfg w st ident = (Inr None, st')"
  using assms by (simp add: listSkills_def getSkillSummary_def getSkillByIdentifier_def)

text \<open>
  The loaders cache a dataset only together with the non-empty name of its table, so a
  store that went through them never meets the hypotheses of \<open>guards_as_written\<close>.
\<close>

lemma buildDbFromBuffer_table_known:
  assumes "buildDbFromBuffer w st buf meta = (res, st')" and "table_known st"
  shows "table_known st' \<and> (\<forall>db. res = Inr db \<longrightarrow> cachedDb st' = Some db)"
proof -
  have "t \<noteq> []" if "selectTableName d = Some t" for d t
    using that by (auto simp: selectTableName_def Let_def split: if_splits list.splits)
  then show ?thesis
    using assms
    by (auto simp: buildDbFromBuffer_def setCachedDb_def table_known_def
        split: sum.splits option.splits)
qed

lemma freshFetch_table_known:
  assumes "freshFetch w st u = (res, st')" and "table_known st"
  shows "table_known st' \<and> (\<forall>db. res = Inr db \<longrightarrow> cachedDb st' = Some db)"
  using assms buildDbFromBuffer_table_known [OF _ assms(2)]
  by (auto simp: freshFetch_def split: sum.splits if_splits)

lemma loadRemoteDb_table_known:
  assumes "loadRemoteDb w st u = (res, st')" and "table_known st"
  shows "table_known st' \<and> (\<forall>db. res = Inr db \<longrightarrow> cachedDb st' = Some db)"
  using assms buildDbFromBuffer_table_known [OF _ assms(2)] freshFetch_table_known [OF _ assms(2)]
  by (auto simp: loadRemoteDb_def table_known_def
      split: option.splits sum.splits if_splits revalidation.splits)

lemma loadLocalDb_table_known:
  assumes "loadLocalDb w st p = (res, st')" and "table_known st"
  shows "table_known st' \<and> (\<forall>db. res = Inr db \<longrightarrow> cachedDb st' = Some db)"
  using assms buildDbFromBuffer_table_known [OF _ assms(2)]
  by (auto simp: loadLocalDb_def table_known_def split: option.splits sum.splits if_splits)

lemma getDb_table_known:
  assumes "getDb cfg w st = (res, st')" and "table_known st"
  shows "table_known st' \<and> (\<forall>db. res = Inr db \<longrightarrow> cachedDb st' = Some db)"
  using assms loadRemoteDb_table_known [OF _ assms(2)] loadLocalDb_table_known [OF _ assms(2)]
  by (auto simp: getDb_def load_def split: option.splits if_splits dbSource.splits)

lemma getDb_resolves_table:
  assumes "getDb cfg w st = (Inr db, st')" and "table_known st"
  shows "resolveTable st' db \<noteq> None"
  using getDb_table_known [OF assms]
  by (auto simp: table_known_def resolveTable_def)

lemma table_known_initialStore: "table_known initialStore"
  by (simp add: table_known_def initialStore_def)

lemma failed_getDb_is_passed_on:
  assumes "getDb cfg w st = (Inl e, st')"
  shows "listSkills parseArrayValue pickCategory cfg w st q cat pg psize sort_arg = (Inl e, st')
       \<and> getSkillSummary pickCategory cfg w st = (Inl e, st')
       \<and> getSkillByIdentifier parseArrayValue pickCategory cfg w st ident = (Inl e, st')"
  using assms by (simp add: listSkills_def getSkillSummary_def getSkillByIdentifier_def)

lemma first_local_load_without_table:
  assumes "cachedDb st = None" and "getDbSource cfg = Local p"
    and "statFile w p = Inr m" and "readFile w p = Inr buf"
    and "sqlOpen w buf = Inr db" and "selectTableName db = None"
  shows "getDb cfg w st = (Inl NoTableFound, st)"
  using assms by (simp add: getDb_def load_def loadLocalDb_def buildDbFromBuffer_def)

lemma first_remote_load_without_table:
  assumes "cachedDb st = None" and "getDbSource cfg = Remote u"
    and "fetch w \<lparr> url = u, verb = GET, ifNoneMatch = None, ifModifiedSince = None \<rparr> = Inr r"
    and "ok r" and "body r = Inr buf"
    and "sqlOpen w buf = Inr db" and "selectTableName db = None"
  shows "getDb cfg w st = (Inl NoTableFound, st)"
  using assms
  by (simp add: getDb_def load_def loadRemoteDb_def freshFetch_def buildDbFromBuffer_def)

lemma no_tables_no_name: "selectTableName [] = None"
  by (simp add: selectTableName_def table_names_query_def non_system_names_def)

text \<open>
  C8 as the specification words it has the three operations return their empty shapes,
  and not fail, when no table is resolvable in the loaded dataset. On the first call, with
  a local file that opens as a database without tables, no table is resolvable and each
  of the three operations fails with the no-table error.
\<close>

theorem table_less_file_counterexample:
  "selectTableName [] = None
   \<and> listSkills (\<lambda>v. []) js_String localConfig
       ((offline 5)\<lparr>statFile := (\<lambda>p. Inr 7), readFile := (\<lambda>p. Inr ''bytes''),
                     sqlOpen := (\<lambda>b. Inr [])\<rparr>)
       initialStore [] [] 1 16 ''latest''
     = (Inl NoTableFound, initialStore)
   \<and> getSkillSummary js_String localConfig
       ((offline 5)\<lparr>statFile := (\<lambda>p. Inr 7), readFile := (\<lambda>p. Inr ''bytes''),
                     sqlOpen := (\<lambda>b. Inr [])\<rparr>)
       initialStore
     = (Inl NoTableFound, initialStore)
   \<and> getSkillByIdentifier (\<lambda>v. []) js_String localConfig
       ((offline 5)\<lparr>statFile := (\<lambda>p. Inr 7), readFile := (\<lambda>p. Inr ''bytes''),
                     sqlOpen := (\<lambda>b. Inr [])\<rparr>)
       initialStore (JStr ''alpha'')
     = (Inl NoTableFound, initialStore)"
proof -
  let ?w = "(offline 5)\<lparr>statFile := (\<lambda>p. Inr 7), readFile := (\<lambda>p. Inr ''bytes''),
                         sqlOpen := (\<lambda>b. Inr [])\<rparr>"
  have src: "getDbSource localConfig = Local ''/app/public/skill.db''"
    by (simp add: getDbSource_def localConfig_def)
  have g: "getDb localConfig ?w initialStore = (Inl NoTableFound, initialStore)"
    by (rule first_local_load_without_table [OF _ src, where m = 7 and buf = "''bytes''" and db = "[]"])
       (simp_all add: initialStore_def no_tables_no_name)
  show ?thesis
    using g no_tables_no_name
    by (simp add: listSkills_def getSkillSummary_def getSkillByIdentifier_def)
qed

text \<open>
  C8 (as the code has it). A dataset in which no table is resolvable does not get loaded:
  the first load of it, from a local file or from a remote URL, fails with the no-table
  error and leaves the store as it was. \<open>listSkills\<close>, \<open>getSkillSummary\<close> and
  \<open>getSkillByIdentifier\<close> pass the failure of \<open>getDb\<close> to their caller. Starting from a
  store in which the table name is cached with the dataset, as in the initial store and
  in every store the loaders leave, a dataset that \<open>getDb\<close> hands over has a resolvable
  table, so the guards that return the empty shapes are not taken.
\<close>

theorem table_less_dataset_is_rejected:
  assumes "table_known st"
  shows "(\<forall>db st'. getDb cfg w st = (Inr db, st') \<longrightarrow> resolveTable st' db \<noteq> None \<and> table_known st')
       \<and> (\<forall>e st'. getDb cfg w st = (Inl e, st') \<longrightarrow>
            listSkills parseArrayValue pickCategory cfg w st q cat pg psize sort_arg = (Inl e, st')
            \<and> getSkillSummary pickCategory cfg w st = (Inl e, st')
            \<and> getSkillByIdentifier parseArrayValue pickCategory cfg w st ident = (Inl e, st'))
       \<and> (\<forall>p m buf db.
            cachedDb st = None \<and> getDbSource cfg = Local p
            \<and> statFile w p = Inr m \<and> readFile w p = Inr buf
            \<and> sqlOpen w buf = Inr db \<and> selectTableName db = None \<longrightarrow>
            getDb cfg w st = (Inl NoTableFound, st))
       \<and> (\<forall>u r buf db.
            cachedDb st = None \<and> getDbSource cfg = Remote u
            \<and> fetch w \<lparr> url = u, verb = GET, ifNoneMatch = None, ifModifiedSince = None \<rparr> = Inr r
            \<and> ok r \<and> body r = Inr buf
            \<and> sqlOpen w buf = Inr db \<and> selectTableName db = None \<longrightarrow>
            getDb cfg w st = (Inl NoTableFound, st))"
proof (intro conjI allI impI)
  fix db st' assume "getDb cfg w st = (Inr db, st')"
  then show "resolveTable st' db \<noteq> None" "table_known st'"
    using assms getDb_resolves_table getDb_table_known by blast+
next
  fix e st' assume g: "getDb cfg w st = (Inl e, st')"
  show "listSkills parseArrayValue pickCategory cfg w st q cat pg psize sort_arg = (Inl e, st')"
    "getSkillSummary pickCategory cfg w st = (Inl e, st')"
    "getSkillByIdentifier parseArrayValue pickCategory cfg w st ident = (Inl e, st')"
    using failed_getDb_is_passed_on [OF g] by blast+
next
  fix p m buf db
  assume "cachedDb st = None \<and> getDbSource cfg = Local p
            \<and> statFile w p = Inr m \<and> readFile w p = Inr buf
            \<and> sqlOpen w buf = Inr db \<and> selectTableName db = None"
  then show "getDb cfg w st = (Inl NoTableFound, st)"
    using first_local_load_without_table by blast
next
  fix u r buf db
  assume "cachedDb st = None \<and> getDbSource cfg = Remote u
            \<and> fetch w \<lparr> url = u, verb = GET, ifNoneMatch = None, ifModifiedSince = None \<rparr> = Inr r
            \<and> ok r \<and> body r = Inr buf
            \<and> sqlOpen w buf = Inr db \<and> selectTableName db = None"
  then show "getDb cfg w st = (Inl NoTableFound, st)"
    using first_remote_load_without_table by blast
qed

text \<open>
  The theorem on the initial store with a remote source whose bytes open as a database
  without tables: the load fails with the no-table error and the three operations fail
  with it.
\<close>

theorem table_less_dataset_is_rejected_witness:
  "listSkills (\<lambda>v. []) js_String remoteConfig
       ((offline 5)\<lparr>fetch := answering \<lparr>status = 200, etagHeader = None,
                                          lastModifiedHeader = None, body = Inr ''bytes''\<rparr>,
                     sqlOpen := (\<lambda>b. Inr [])\<rparr>)
       initialStore [] [] 1 16 ''latest''
     = (Inl NoTableFound, initialStore)
   \<and> getSkillSummary js_String remoteConfig
       ((offline 5)\<lparr>fetch := answering \<lparr>status = 200, etagHeader = None,
                                          lastModifiedHeader = None, body = Inr ''bytes''\<rparr>,
                     sqlOpen := (\<lambda>b. Inr [])\<rparr>)
       initialStore
     = (Inl NoTableFound, initialStore)
   \<and> getSkillByIdentifier (\<lambda>v. []) js_String remoteConfig
       ((offline 5)\<lparr>fetch := answering \<lparr>status = 200, etagHeader = None,
                                          lastModifiedHeader = None, body = Inr ''bytes''\<rparr>,
                     sqlOpen := (\<lambda>b. Inr [])\<rparr>)
       initialStore (JStr ''alpha'')
     = (Inl NoTableFound, initialStore)"
proof -
  let ?r = "\<lparr>status = 200, etagHeader = None, lastModifiedHeader = None, body = Inr ''bytes''\<rparr>"
  let ?w = "(offline 5)\<lparr>fetch := answering ?r, sqlOpen := (\<lambda>b. Inr [])\<rparr>"
  let ?u = "''https://example.com/skill.db''"
  have h: "is_http_url ?u" by code_simp
  have src: "getDbSource remoteConfig = Remote ?u"
    using h by (simp add: getDbSource_def remoteConfig_def localConfig_def)
  have pre: "cachedDb initialStore = None \<and> getDbSource remoteConfig = Remote ?u
            \<and> fetch ?w \<lparr> url = ?u, verb = GET, ifNoneMatch = None, ifModifiedSince = None \<rparr> = Inr ?r
            \<and> ok ?r \<and> body ?r = Inr ''bytes''
            \<and> sqlOpen ?w ''bytes'' = Inr [] \<and> selectTableName [] = None"
    using src by (simp add: initialStore_def answering_def ok_def no_tables_no_name)
  note T = table_less_dataset_is_rejected [OF table_known_initialStore,
      of remoteConfig ?w "\<lambda>v. []" js_String "[]" "[]" 1 16 "''latest''" "JStr ''alpha''"]
  have g: "getDb remoteConfig ?w initialStore = (Inl NoTableFound, initialStore)"
    using T pre by blast
  show ?thesis
    using T g by blast
qed

subsection \<open>The summary\<close>

lemma count_mset_map:
  "count (mset (map f xs)) k = length (filter (\<lambda>x. f x = k) xs)"
  by (induction xs) auto

lemma countRow_plain:
  assumes "objectPrototype (pickCategory (getProp r ''categories'')) = None"
  shows "countRow pickCategory (\<lambda>k. if n k = 0 then None else Some (JNum (int (n k)))) r
         = (\<lambda>k. if (n k + (if pickCategory (getProp r ''categories'') = k then 1 else 0)) = 0 then None
                 else Some (JNum (int (n k + (if pickCategory (getProp r ''categories'') = k then 1 else 0)))))"
proof -
  let ?cat = "pickCategory (getProp r ''categories'')"
  let ?c = "\<lambda>k. if n k = 0 then None else Some (JNum (int (n k)))"
  have np: "?cat \<noteq> ''__proto__''"
    using assms(1) by (auto simp: objectPrototype_def)
  have rd: "or_zero_plus_one (readCount ?c ?cat) = JNum (int (n ?cat) + 1)"
    using assms by (simp add: readCount_def or_zero_plus_one_def)
  show ?thesis
    unfolding countRow_def Let_def rd writeCount_def using np
    by (auto simp: fun_eq_iff)
qed

text \<open>The counting loop over rows whose categories are plain names.\<close>

lemma counts_plain:
  assumes "\<forall>r \<in> set rows. objectPrototype (pickCategory (getProp r ''categories'')) = None"
  shows "foldl (countRow pickCategory) Map.empty rows
         = (\<lambda>k. if count (mset (map (\<lambda>r. pickCategory (getProp r ''categories'')) rows)) k = 0 then None
                 else Some (JNum (int (count (mset (map (\<lambda>r. pickCategory (getProp r ''categories'')) rows)) k))))"
  using assms
proof (induction rows rule: rev_induct)
  case Nil
  then show ?case by (simp add: fun_eq_iff)
next
  case (snoc r rows)
  let ?f = "\<lambda>r. pickCategory (getProp r ''categories'')"
  have ih: "foldl (countRow pickCategory) Map.empty rows
         = (\<lambda>k. if count (mset (map ?f rows)) k = 0 then None
                 else Some (JNum (int (count (mset (map ?f rows)) k))))"
    using snoc by simp
  have p: "objectPrototype (?f r) = None" using snoc.prems by simp
  show ?case
    unfolding foldl_append foldl_Cons foldl_Nil ih
    by (subst countRow_plain [where pickCategory = pickCategory and r = r
          and n = "count (mset (map ?f rows))", OF p])
       (auto simp: fun_eq_iff)
qed

text \<open>
  As long as no picked category is the name of a property of \<open>Object.prototype\<close>, the
  summary holds for each category the number of rows the picker sends to it (and no entry
  for a category without rows), and these numbers add up to the total.
\<close>

lemma summary_counts_sum:
  fixes pickCategory :: "jsval \<Rightarrow> string"
  defines "picked \<equiv> \<lambda>t r. pickCategory (getProp (getAsObject t [''categories''] r) ''categories'')"
  assumes "\<not> has_quote tbl" and "from_table db tbl = Inr t" and "has_columns t [''categories'']"
    and "mset (rowOrder w None (trows t)) = mset (trows t)"
    and "\<forall>r \<in> set (trows t). objectPrototype (picked t r) = None"
  shows "\<exists>s. summaryQuery pickCategory w db tbl = Inr s
           \<and> summary_total s = length (trows t)
           \<and> (\<forall>k. summary_counts s k =
                  (if length (filter (\<lambda>r. picked t r = k) (trows t)) = 0 then None
                   else Some (JNum (int (length (filter (\<lambda>r. picked t r = k) (trows t)))))))
           \<and> finite (dom (summary_counts s))
           \<and> (\<Sum>k \<in> dom (summary_counts s). length (filter (\<lambda>r. picked t r = k) (trows t)))
               = summary_total s"
proof -
  let ?visited = "rowOrder w None (trows t)"
  let ?rows = "map (getAsObject t [''categories'']) ?visited"
  let ?f = "\<lambda>r. pickCategory (getProp r ''categories'')"
  let ?M = "mset (map ?f ?rows)"
  let ?c = "\<lambda>k. if count ?M k = 0 then None else Some (JNum (int (count ?M k)))"
  define s where "s = \<lparr> summary_total = length ?rows, summary_counts = ?c \<rparr>"
  have same: "set ?visited = set (trows t)"
    using assms(5) by (rule mset_eq_setD)
  have plain: "\<forall>r \<in> set ?rows. objectPrototype (?f r) = None"
    using assms(6) same by (simp add: picked_def)
  have q: "summaryQuery pickCategory w db tbl = Inr s"
    using assms(2,3,4) counts_plain [OF plain] by (simp add: summaryQuery_def Let_def s_def)
  have pm: "map ?f ?rows = map (picked t) ?visited"
    by (simp add: picked_def)
  have "count ?M k = length (filter (\<lambda>r. picked t r = k) ?visited)" for k
    unfolding pm by (rule count_mset_map)
  also have "\<dots> k = length (filter (\<lambda>r. picked t r = k) (trows t))" for k
    using assms(5) by (metis mset_filter size_mset)
  finally have occ: "count ?M k = length (filter (\<lambda>r. picked t r = k) (trows t))" for k .
  have "length ?visited = length (trows t)"
    using assms(5) by (metis size_mset)
  then have tot: "summary_total s = length (trows t)" by (simp add: s_def)
  have cnt: "summary_counts s k =
                  (if length (filter (\<lambda>r. picked t r = k) (trows t)) = 0 then None
                   else Some (JNum (int (length (filter (\<lambda>r. picked t r = k) (trows t))))))" for k
    using occ [of k] by (simp add: s_def)
  have d: "dom (summary_counts s) = set_mset ?M"
    by (auto simp: s_def dom_def split: if_splits)
  have f: "finite (dom (summary_counts s))" unfolding d by simp
  have "(\<Sum>k \<in> set_mset ?M. count ?M k) = size ?M"
    by (simp add: size_multiset_overloaded_eq)
  then have "(\<Sum>k \<in> dom (summary_counts s). count ?M k) = summary_total s"
    unfolding d by (simp add: s_def)
  then have sm: "(\<Sum>k \<in> dom (summary_counts s). length (filter (\<lambda>r. picked t r = k) (trows t)))
               = summary_total s"
    unfolding occ .
  show ?thesis
    using q tot cnt f sm by blast
qed

text \<open>
  C10 at a row whose picked category is \<open>constructor\<close>. The read \<open>counts[category]\<close>
  finds the function \<open>Object\<close> on the prototype, \<open>|| 0\<close> keeps it, and \<open>+ 1\<close> appends
  the character \<open>1\<close> to its source text: the only entry of \<open>counts\<close> is a string, while
  \<open>total\<close> is 1.
\<close>

theorem summary_inherited_name:
  assumes "pickCategory (JStr ''constructor'') = ''constructor''"
  shows "getSkillSummary pickCategory localConfig (offline 5)
           (readyStore [(''skills'', \<lparr> tcolumns = [''categories''],
                                        trows = [[''categories'' \<mapsto> JStr ''constructor'']] \<rparr>)]
              ''/app/public/skill.db'')
         = (Inr \<lparr> summary_total = 1,
                   summary_counts = [''constructor'' \<mapsto> JStr ''function Object() { [native code] }1''] \<rparr>,
            readyStore [(''skills'', \<lparr> tcolumns = [''categories''],
                                        trows = [[''categories'' \<mapsto> JStr ''constructor'']] \<rparr>)]
              ''/app/public/skill.db'')"
proof -
  let ?row = "[''categories'' \<mapsto> JStr ''constructor'']"
  let ?t = "\<lparr> tcolumns = [''categories''], trows = [?row] \<rparr>"
  let ?db = "[(''skills'', ?t)]"
  have dc: "same_name ''categories'' ''categories''"
    by (simp add: same_name_def)
  have sel: "List.map_filter (declared ?t) [''categories''] = [''categories'']"
    by (simp add: declared_def dc List.map_filter_simps)
  have r: "getProp (getAsObject ?t [''categories''] ?row) ''categories'' = JStr ''constructor''"
    unfolding getAsObject_def sel by (simp add: getProp_def stored_def to_js_def)
  have c: "countRow pickCategory Map.empty (getAsObject ?t [''categories''] ?row)
           = [''constructor'' \<mapsto> JStr ''function Object() { [native code] }1'']"
    unfolding countRow_def Let_def r assms
    by (simp add: readCount_def objectPrototype_def or_zero_plus_one_def writeCount_def)
  have hc: "has_columns ?t [''categories'']"
    by (simp add: has_columns_def declared_def dc)
  have ft: "from_table ?db ''skills'' = Inr ?t"
    by (simp add: from_table_def same_name_def)
  have q: "summaryQuery pickCategory (offline 5) ?db ''skills''
           = Inr \<lparr> summary_total = 1,
                   summary_counts = [''constructor'' \<mapsto> JStr ''function Object() { [native code] }1''] \<rparr>"
    unfolding summaryQuery_def Let_def ft rowOrder_offline
    using c hc skills_no_quote by simp
  show ?thesis
    using q by (simp add: getSkillSummary_def getDb_fresh_local resolveTable_ready)
qed

text \<open>The hypothesis holds for a picker that returns the raw text.\<close>

theorem summary_inherited_name_witness:
  "getSkillSummary js_String localConfig (offline 5)
           (readyStore [(''skills'', \<lparr> tcolumns = [''categories''],
                                        trows = [[''categories'' \<mapsto> JStr ''constructor'']] \<rparr>)]
              ''/app/public/skill.db'')
         = (Inr \<lparr> summary_total = 1,
                   summary_counts = [''constructor'' \<mapsto> JStr ''function Object() { [native code] }1''] \<rparr>,
            readyStore [(''skills'', \<lparr> tcolumns = [''categories''],
                                        trows = [[''categories'' \<mapsto> JStr ''constructor'']] \<rparr>)]
              ''/app/public/skill.db'')"
  using summary_inherited_name [of js_String] by simp

subsection \<open>Single-flight loading\<close>

lemma enterGetDb_stale:
  assumes "needsCheck cfg (mstore m) t"
  shows "enterGetDb cfg t m = startOrJoin cfg m"
  using assms by (simp add: enterGetDb_def split: option.splits)

text \<open>While a load is in flight, callers that find the cache stale join its promise.\<close>

lemma callers_join:
  assumes "loadingPromise m = Some p" and "\<forall>t \<in> set ts. needsCheck cfg (mstore m) t"
  shows "callers cfg ts m = (replicate (length ts) (Joined (promiseId p)), m)"
  using assms
  by (induction ts) (simp_all add: enterGetDb_stale startOrJoin_def)

text \<open>
  Started and settled loads differ by the one load in flight, whatever the schedule.
\<close>

lemma step_balance:
  assumes "loadsStarted m = loadsSettled m + (if loadingPromise m = None then 0 else 1)"
  shows "loadsStarted (step m e)
           = loadsSettled (step m e) + (if loadingPromise (step m e) = None then 0 else 1)"
proof (cases e)
  case (Call cfg t)
  then show ?thesis
    using assms by (auto simp: enterGetDb_def startOrJoin_def split: option.splits)
next
  case (Settle w)
  then show ?thesis
    using assms by (auto simp: settle_def split: option.splits prod.splits)
qed

lemma run_balance:
  assumes "loadsStarted m = loadsSettled m + (if loadingPromise m = None then 0 else 1)"
  shows "loadsStarted (run m es)
           = loadsSettled (run m es) + (if loadingPromise (run m es) = None then 0 else 1)"
  using assms unfolding run_def
proof (induction es arbitrary: m)
  case Nil
  then show ?case by simp
next
  case (Cons e es)
  show ?case
    unfolding foldl_Cons by (rule Cons.IH) (rule step_balance [OF Cons.prems])
qed

text \<open>
  C9. Let no load be in flight, and let \<open>N \<ge> 1\<close> callers enter \<open>getDb\<close> before anything
  settles, each finding the cache absent or stale. Then the first starts a load and every
  caller holds the promise of that load; one load has been started and the store has not
  been touched. When the load settles, that promise carries the outcome of the one run of
  the loader, and no load is in flight. On any schedule of calls and settlements from the
  initial state, the loads started exceed the loads settled by at most one, the one in
  flight: none is started before the previous one has settled.
\<close>

theorem single_flight:
  assumes "loadingPromise m = None"
    and "ts \<noteq> []"
    and "\<forall>t \<in> set ts. needsCheck cfg (mstore m) t"
  shows "\<exists>m'. callers cfg ts m = (replicate (length ts) (Joined (nextPromise m)), m')
           \<and> loadsStarted m' = loadsStarted m + 1
           \<and> mstore m' = mstore m
           \<and> (\<forall>w. \<exists>m''. settle w m'
                      = (Some (nextPromise m, fst (load w (mstore m) (getDbSource cfg))), m'')
                  \<and> mstore m'' = snd (load w (mstore m) (getDbSource cfg))
                  \<and> loadingPromise m'' = None
                  \<and> loadsStarted m'' = loadsStarted m + 1)
           \<and> (\<forall>es. loadsStarted (run initialManager es) \<le> loadsSettled (run initialManager es) + 1)"
proof -
  obtain t ts' where ts: "ts = t # ts'"
    using assms(2) by (cases ts) auto
  define p where "p = \<lparr> promiseId = nextPromise m, pendingSource = getDbSource cfg \<rparr>"
  define m1 where "m1 = m\<lparr> loadingPromise := Some p, nextPromise := nextPromise m + 1,
                          loadsStarted := loadsStarted m + 1 \<rparr>"
  have first: "enterGetDb cfg t m = (Joined (nextPromise m), m1)"
    using assms(1,3) ts by (simp add: enterGetDb_stale startOrJoin_def m1_def p_def)
  have st1: "mstore m1 = mstore m" and lp1: "loadingPromise m1 = Some p"
    and ls1: "loadsStarted m1 = loadsStarted m + 1"
    by (simp_all add: m1_def)
  have rest: "callers cfg ts' m1 = (replicate (length ts') (Joined (promiseId p)), m1)"
    by (rule callers_join [OF lp1]) (use assms(3) ts st1 in simp)
  have pid: "promiseId p = nextPromise m" and psrc: "pendingSource p = getDbSource cfg"
    by (simp_all add: p_def)
  have all: "callers cfg ts m = (replicate (length ts) (Joined (nextPromise m)), m1)"
    unfolding ts using first rest pid by simp
  have settled: "\<exists>m''. settle w m1
                      = (Some (nextPromise m, fst (load w (mstore m) (getDbSource cfg))), m'')
                  \<and> mstore m'' = snd (load w (mstore m) (getDbSource cfg))
                  \<and> loadingPromise m'' = None
                  \<and> loadsStarted m'' = loadsStarted m + 1" for w
    by (cases "load w (mstore m) (getDbSource cfg)")
       (simp add: settle_def lp1 st1 ls1 pid psrc)
  have bal: "loadsStarted (run initialManager es) \<le> loadsSettled (run initialManager es) + 1" for es
    using run_balance [of initialManager es] by (simp add: initialManager_def split: if_splits)
  show ?thesis
    using all ls1 st1 settled bal by blast
qed

text \<open>
  Three callers on the initial state, at the times 1, 2 and 3, the cache being empty: all
  three hold promise 0 and one load has been started.
\<close>

theorem single_flight_witness:
  "\<exists>m'. callers localConfig [1, 2, 3] initialManager = ([Joined 0, Joined 0, Joined 0], m')
        \<and> loadsStarted m' = 1 \<and> mstore m' = initialStore"
proof -
  have idle: "loadingPromise initialManager = None"
    by (simp add: initialManager_def)
  have ne: "[1, 2, 3 :: int] \<noteq> []" by simp
  have stale: "\<forall>t \<in> set [1, 2, 3]. needsCheck localConfig (mstore initialManager) t"
    by (simp add: needsCheck_def initialManager_def initialStore_def)
  from single_flight [OF idle ne stale]
  obtain m' where
    a: "callers localConfig [1, 2, 3] initialManager
          = (replicate (length [1, 2, 3 :: int]) (Joined (nextPromise initialManager)), m')"
    and b: "loadsStarted m' = loadsStarted initialManager + 1"
    and c: "mstore m' = mstore initialManager"
    by blast
  have "replicate (length [1, 2, 3 :: int]) (Joined (nextPromise initialManager))
        = [Joined 0, Joined 0, Joined 0]"
    by (simp add: initialManager_def numeral_3_eq_3)
  with a b c show ?thesis
    by (auto simp: initialManager_def)
qed

end
